theory Spec2Isabelle
  imports Complex_Main "HOL-Library.Sublist" "HOL-Library.Word"
begin

section \<open>The Python string operations the analyzer calls\<close>

text \<open>
  A Python \<open>str\<close> is a sequence of code points. It is modelled as a HOL \<open>string\<close>, whose
  characters are the 256 code points U+0000 .. U+00FF; \<open>of_char\<close> reads the code point.
  Every operation below follows CPython on that range. \<open>str.upper\<close> can leave the
  range (U+00B5 and U+00FF have capitals above U+00FF, and U+00DF becomes two letters),
  so its result is a list of code points.
\<close>

type_synonym codepoint = nat

definition cps :: "string \<Rightarrow> codepoint list" where
  "cps s = map of_char s"

text \<open>\<open>str.isspace\<close> of one character; it decides what \<open>str.strip()\<close> removes.\<close>

definition py_isspace :: "char \<Rightarrow> bool" where
  "py_isspace c =
     (let n = (of_char c :: nat)
      in (9 \<le> n \<and> n \<le> 13) \<or> (28 \<le> n \<and> n \<le> 32) \<or> n = 133 \<or> n = 160)"

text \<open>\<open>str.isdigit\<close>: the ASCII digits and the superscripts U+00B2, U+00B3, U+00B9.\<close>

definition py_isdigit :: "char \<Rightarrow> bool" where
  "py_isdigit c =
     (let n = (of_char c :: nat)
      in (48 \<le> n \<and> n \<le> 57) \<or> n = 178 \<or> n = 179 \<or> n = 185)"

definition ascii_digit :: "char \<Rightarrow> bool" where
  "ascii_digit c = (let n = (of_char c :: nat) in 48 \<le> n \<and> n \<le> 57)"

definition strip :: "string \<Rightarrow> string" where
  "strip s = rev (dropWhile py_isspace (rev (dropWhile py_isspace s)))"

definition upper_cp :: "char \<Rightarrow> codepoint list" where
  "upper_cp c =
     (let n = (of_char c :: nat)
      in if 97 \<le> n \<and> n \<le> 122 then [n - 32]
         else if n = 181 then [924]
         else if n = 223 then [83, 83]
         else if 224 \<le> n \<and> n \<le> 254 \<and> n \<noteq> 247 then [n - 32]
         else if n = 255 then [376]
         else [n])"

definition upper :: "string \<Rightarrow> codepoint list" where
  "upper s = concat (map upper_cp s)"

definition lower_char :: "char \<Rightarrow> char" where
  "lower_char c =
     (let n = (of_char c :: nat)
      in if (65 \<le> n \<and> n \<le> 90) \<or> (192 \<le> n \<and> n \<le> 222 \<and> n \<noteq> 215)
         then char_of (n + 32) else c)"

definition lower :: "string \<Rightarrow> string" where
  "lower s = map lower_char s"

text \<open>\<open>s.replace(a, b)\<close> for one-character \<open>a\<close> and \<open>b\<close>.\<close>

definition replace :: "char \<Rightarrow> char \<Rightarrow> string \<Rightarrow> string" where
  "replace a b s = map (\<lambda>c. if c = a then b else c) s"

text \<open>\<open>needle in haystack\<close> for sequences: the needle occurs as a contiguous block.\<close>

fun contains :: "'a list \<Rightarrow> 'a list \<Rightarrow> bool" where
  "contains needle [] = (needle = [])"
| "contains needle (h # hs) = (prefix needle (h # hs) \<or> contains needle hs)"

definition startswith :: "string \<Rightarrow> string \<Rightarrow> bool" where
  "startswith s p = prefix p s"

definition nl :: char where
  "nl = CHR 0x0A"

text \<open>\<open>s.split(sep)\<close> for a one-character separator: never empty, one more piece than
  there are separators.\<close>

fun split :: "char \<Rightarrow> string \<Rightarrow> string list" where
  "split sep [] = [[]]"
| "split sep (c # cs) =
     (let ps = split sep cs
      in if c = sep then [] # ps else (c # hd ps) # tl ps)"

text \<open>\<open>s.split(sep, 1)\<close>: cut at the first separator only; one piece when there is none.\<close>

definition split1 :: "char \<Rightarrow> string \<Rightarrow> string list" where
  "split1 sep s =
     (if sep \<in> set s
      then [takeWhile (\<lambda>c. c \<noteq> sep) s, tl (dropWhile (\<lambda>c. c \<noteq> sep) s)]
      else [s])"

datatype py_error = IndexError | ValueError | AttributeError

text \<open>\<open>xs[i]\<close> for a non-negative index.\<close>

definition index :: "'a list \<Rightarrow> nat \<Rightarrow> py_error + 'a" where
  "index xs i = (if i < length xs then Inr (xs ! i) else Inl IndexError)"

text \<open>The tuple assignment \<open>a, b = xs\<close>.\<close>

fun unpack2 :: "'a list \<Rightarrow> py_error + ('a \<times> 'a)" where
  "unpack2 [a, b] = Inr (a, b)"
| "unpack2 xs = Inl ValueError"

definition decimal :: "string \<Rightarrow> int" where
  "decimal s = foldl (\<lambda>a c. 10 * a + (of_char c - 48)) 0 s"

text \<open>
  \<open>int(s)\<close> for a string made of \<open>str.isdigit\<close> characters only, which is all the analyzer
  passes to it (sign, blanks and underscores cannot occur). The empty string and the
  superscript digits are invalid literals. \<open>maxd\<close> is the interpreter's
  \<open>sys.get_int_max_str_digits()\<close>: when positive, a literal with more digits is refused
  (leading zeros count); \<open>0\<close> stands for no limit, also for interpreters without one.
  CPython looks at the setting only for literals of more than 640 digits, the least
  positive value the setting can have.
\<close>

definition py_int :: "nat \<Rightarrow> string \<Rightarrow> py_error + int" where
  "py_int maxd s =
     (if s \<noteq> [] \<and> list_all ascii_digit s
      then (if 640 < length s \<and> 0 < maxd \<and> maxd < length s then Inl ValueError
            else Inr (decimal s))
      else Inl ValueError)"

section \<open>The response parser\<close>

text \<open>The dictionary \<open>parsed\<close> of \<open>_parse_analysis\<close>: its ten keys are fixed at creation.\<close>

record AnalysisResult =
  pair :: string
  verdict :: string
  confidence :: int
  setup_type :: string
  market_story :: string
  confluences :: "string list"
  scenario_a :: "string \<rightharpoonup> string"
  scenario_b :: "string \<rightharpoonup> string"
  scenario_c :: "string \<rightharpoonup> string"
  key_levels :: "string \<rightharpoonup> string"

text \<open>The values \<open>current_section\<close> takes; \<open>None\<close> is Python's \<open>None\<close>.\<close>

datatype section_name = Story | Confluences | Scenario_a | Scenario_b | Scenario_c | Levels

definition initial :: "string \<Rightarrow> AnalysisResult" where
  "initial p =
     \<lparr>pair = p, verdict = ''UNKNOWN'', confidence = 5, setup_type = ''Unknown'',
      market_story = '''', confluences = [], scenario_a = Map.empty,
      scenario_b = Map.empty, scenario_c = Map.empty, key_levels = Map.empty\<rparr>"

text \<open>\<open>line.split(':', 1)[1]\<close>.\<close>

definition after_colon :: "string \<Rightarrow> py_error + string" where
  "after_colon line = index (split1 CHR '':'' line) 1"

text \<open>\<open>parsed[current_section][key] = value\<close> for the three scenario sections.\<close>

fun store :: "section_name \<Rightarrow> string \<Rightarrow> string \<Rightarrow> AnalysisResult \<Rightarrow> AnalysisResult" where
  "store Scenario_a k v parsed = parsed\<lparr>scenario_a := (scenario_a parsed)(k \<mapsto> v)\<rparr>"
| "store Scenario_b k v parsed = parsed\<lparr>scenario_b := (scenario_b parsed)(k \<mapsto> v)\<rparr>"
| "store Scenario_c k v parsed = parsed\<lparr>scenario_c := (scenario_c parsed)(k \<mapsto> v)\<rparr>"
| "store s k v parsed = parsed"

text \<open>The branch \<open>elif line and current_section:\<close>, for a non-empty line and section \<open>sec\<close>.\<close>

definition collect :: "section_name \<Rightarrow> string \<Rightarrow> AnalysisResult \<Rightarrow> py_error + AnalysisResult" where
  "collect sec line parsed =
     (if sec = Story then Inr (parsed\<lparr>market_story := market_story parsed @ line @ '' ''\<rparr>)
      else if sec = Confluences \<and> startswith line ''-''
        then Inr (parsed\<lparr>confluences := confluences parsed @ [strip (drop 1 line)]\<rparr>)
      else if sec \<in> set [Scenario_a, Scenario_b, Scenario_c]
        then (if CHR '':'' \<in> set line
              then (case unpack2 (split1 CHR '':'' line) of
                      Inl e \<Rightarrow> Inl e
                    | Inr (key, val) \<Rightarrow>
                        Inr (store sec (replace CHR '' '' CHR ''_'' (lower (strip key)))
                               (strip val) parsed))
              else Inr parsed)
      else Inr parsed)"

text \<open>
  One iteration of \<open>for line in lines\<close>, on the loop's state: the dictionary and
  \<open>current_section\<close>. The inner \<open>case\<close> of the confidence branch is the body of the
  \<open>try\<close>; the bare \<open>except: pass\<close> turns every error of it into \<open>no change\<close>.
\<close>

definition process_line ::
  "nat \<Rightarrow> AnalysisResult \<times> section_name option \<Rightarrow> string
     \<Rightarrow> py_error + (AnalysisResult \<times> section_name option)" where
  "process_line maxd st raw =
     (let parsed = fst st; current_section = snd st;
          line = strip raw; u = upper line
      in if contains (cps ''VERDICT:'') u
           then (case after_colon line of
                   Inl e \<Rightarrow> Inl e
                 | Inr rest \<Rightarrow> Inr (parsed\<lparr>verdict := strip rest\<rparr>, current_section))
         else if contains (cps ''CONFIDENCE:'') u
           then (case (case after_colon line of
                         Inl e \<Rightarrow> Inl e
                       | Inr rest \<Rightarrow> py_int maxd (filter py_isdigit (strip rest))) of
                   Inl e \<Rightarrow> Inr (parsed, current_section)
                 | Inr n \<Rightarrow> Inr (parsed\<lparr>confidence := n\<rparr>, current_section))
         else if contains (cps ''SETUP TYPE:'') u
           then (case after_colon line of
                   Inl e \<Rightarrow> Inl e
                 | Inr rest \<Rightarrow> Inr (parsed\<lparr>setup_type := strip rest\<rparr>, current_section))
         else if contains (cps ''MARKET STORY'') u then Inr (parsed, Some Story)
         else if contains (cps ''KEY CONFLUENCES'') u then Inr (parsed, Some Confluences)
         else if contains (cps ''SCENARIO A'') u then Inr (parsed, Some Scenario_a)
         else if contains (cps ''SCENARIO B'') u then Inr (parsed, Some Scenario_b)
         else if contains (cps ''SCENARIO C'') u then Inr (parsed, Some Scenario_c)
         else if contains (cps ''CRITICAL LEVELS'') u then Inr (parsed, Some Levels)
         else (case current_section of
                 None \<Rightarrow> Inr (parsed, current_section)
               | Some sec \<Rightarrow>
                   if line \<noteq> []
                   then (case collect sec line parsed of
                           Inl e \<Rightarrow> Inl e
                         | Inr parsed' \<Rightarrow> Inr (parsed', current_section))
                   else Inr (parsed, current_section)))"

text \<open>The \<open>for\<close> loop: the first error ends it, as the exception would.\<close>

fun run_lines ::
  "nat \<Rightarrow> AnalysisResult \<times> section_name option \<Rightarrow> string list
     \<Rightarrow> py_error + (AnalysisResult \<times> section_name option)" where
  "run_lines maxd st [] = Inr st"
| "run_lines maxd st (raw # rest) =
     (case process_line maxd st raw of
        Inl e \<Rightarrow> Inl e
      | Inr st' \<Rightarrow> run_lines maxd st' rest)"

text \<open>\<open>_parse_analysis(self, text, pair)\<close>, under an interpreter whose digit limit is \<open>maxd\<close>.\<close>

definition parse_analysis :: "nat \<Rightarrow> string \<Rightarrow> string \<Rightarrow> py_error + AnalysisResult" where
  "parse_analysis maxd text p =
     (case run_lines maxd (initial p, None) (split nl text) of
        Inl e \<Rightarrow> Inl e
      | Inr st \<Rightarrow> Inr (fst st))"

section \<open>The prompt builder and the orchestration entry point\<close>

text \<open>\<open>sep.join(xs)\<close> and \<open>str(n)\<close> for a non-negative integer.\<close>

fun join :: "string \<Rightarrow> string list \<Rightarrow> string" where
  "join sep [] = []"
| "join sep [x] = x"
| "join sep (x # y # ys) = x @ sep @ join sep (y # ys)"

fun str_nat :: "nat \<Rightarrow> string" where
  "str_nat n =
     (if n < 10 then [char_of (48 + n)]
      else str_nat (n div 10) @ [char_of (48 + n mod 10)])"

declare str_nat.simps [simp del]

text \<open>\<open>base64.b64encode(bs).decode('utf-8')\<close>: three bytes give four characters of the
  standard alphabet, and a last group of one or two bytes is padded with \<open>=\<close>.\<close>

type_synonym byte = "8 word"

definition b64_char :: "nat \<Rightarrow> char" where
  "b64_char n =
     ''ABCDEFGHIJKLMNOPQRSTUVWXYZabcdefghijklmnopqrstuvwxyz0123456789+/'' ! n"

fun b64encode :: "byte list \<Rightarrow> string" where
  "b64encode [] = []"
| "b64encode [a] =
     (let x = unat a
      in [b64_char (x div 4), b64_char (x mod 4 * 16), CHR ''='', CHR ''=''])"
| "b64encode [a, b] =
     (let x = unat a; y = unat b
      in [b64_char (x div 4), b64_char (x mod 4 * 16 + y div 16),
          b64_char (y mod 16 * 4), CHR ''=''])"
| "b64encode (a # b # c # bs) =
     (let x = unat a; y = unat b; z = unat c
      in [b64_char (x div 4), b64_char (x mod 4 * 16 + y div 16),
          b64_char (y mod 16 * 4 + z div 64), b64_char (z mod 64)] @ b64encode bs)"

definition encode_image_from_bytes :: "byte list \<Rightarrow> string" where
  "encode_image_from_bytes image_bytes = b64encode image_bytes"

text \<open>The text \<open>_build_system_prompt\<close> returns, line by line.\<close>

definition build_system_prompt :: string where
  \<open>build_system_prompt = join [nl] [
     ''You are an elite Price Action trading analyst specializing in FX markets. Your role is to analyze charts and provide actionable trading scenarios.'',
     '''',
     ''**ANALYSIS FRAMEWORK:**'',
     '''',
     ''1. **Market Structure (The Snake Trick - Optional)**'',
     ''   - Identify trend direction using body closes only (HH/HL for uptrend, LH/LL for downtrend)'',
     ''   - Note: This is a confluence tool, not a requirement'',
     '''',
     ''2. **Chart Patterns (Powerful Confluence)**'',
     ''   - Look for Head & Shoulders, Double Tops/Bottoms, Neckline Retests'',
     ''   - These add significant weight but are NOT mandatory for valid setups'',
     '''',
     ''3. **Supply & Demand Zones (AOI - Critical)**'',
     ''   - Identify areas of interest based on last indecision candles'',
     ''   - HIGH PRIORITY: Zones MUST have Fair Value Gaps (FVG) for quality'',
     ''   - Mark clear entry, stop loss, and take profit zones'',
     '''',
     ''4. **Momentum Analysis**'',
     ''   - Analyze candle bodies vs wicks to determine control'',
     ''   - Look for strong rejection wicks, engulfing patterns, and momentum shifts'',
     '''',
     ''5. **Multi-Timeframe Context**'',
     ''   - Primary: Analyze HTF (Daily/4H) for overall bias'',
     ''   - Secondary: Analyze 1H for entry refinement'',
     ''   - If lower timeframes provided (15m, 10m, 5m): Use for precise "sniper" entries'',
     '''',
     ''**OUTPUT FORMAT:**'',
     '''',
     ''Provide analysis in this exact structure:'',
     '''',
     ''**PAIR:** [Currency Pair]'',
     ''**VERDICT:** [YES/NO/WAIT]'',
     ''**CONFIDENCE:** [1-10]'',
     ''**SETUP TYPE:** [Gap/Day/Continuation]'',
     '''',
     ''**MARKET STORY:**'',
     ''[2-3 sentences describing the overall market narrative]'',
     '''',
     ''**KEY CONFLUENCES:**'',
     ''- [List 3-5 confluences found]'',
     ''- [Include FVG presence, structure, patterns if present]'',
     '''',
     ''**SCENARIO A - THE PRIMARY (Limit Order)**'',
     ''- Entry: [Exact price level]'',
     ''- Stop Loss: [Exact price level]'',
     ''- Take Profit: [Exact price level]'',
     ''- Logic: [Why this is the highest probability setup]'',
     ''- Risk/Reward: [Calculate R:R ratio]'',
     '''',
     ''**SCENARIO B - THE AGGRESSIVE (Alert/Confirmation)**'',
     ''- Trigger: [Specific price action confirmation needed]'',
     ''- Entry: [Price level after confirmation]'',
     ''- Stop Loss: [Exact price level]'',
     ''- Take Profit: [Exact price level]'',
     ''- Logic: [When to take this instead of Scenario A]'',
     '''',
     ''**SCENARIO C - INVALIDATION (Wait/Exit)**'',
     ''- Invalidation Level: [Exact price that kills the setup]'',
     ''- Warning Signs: [What price action to watch for]'',
     ''- Alternative: [What to wait for if this fails]'',
     '''',
     ''**CRITICAL LEVELS:**'',
     ''- Support: [List key support levels]'',
     ''- Resistance: [List key resistance levels]'',
     '''',
     ''Be specific, actionable, and honest. If confluences are weak, say WAIT.''
     ]\<close>

text \<open>
  What is sent to the Model: a message's content is a plain string (the system message)
  or a list of parts (the user message), a part being an image with its URL and detail
  hint, or a text.
\<close>

datatype content_part = Image_url string string | Text string

datatype content = Plain string | Parts "content_part list"

record message =
  role :: string
  content :: content

record request =
  model :: string
  messages :: "message list"
  max_tokens :: nat
  temperature :: real

text \<open>
  What comes back: \<open>choices\<close> lists \<open>message.content\<close> of each choice of the reply, \<open>None\<close>
  where the Model sent no text. The client \<open>chat.completions.create\<close> returns a
  response or raises an exception \<open>e\<close>; \<open>Inl d\<close> is that case, with \<open>d = str(e)\<close>. The
  exceptions of the client are instances of \<open>Exception\<close>.
\<close>

record response =
  choices :: "string option list"

record FuryTraderAI =
  client :: "request \<Rightarrow> string + response"
  system_prompt :: string

definition init :: "(request \<Rightarrow> string + response) \<Rightarrow> FuryTraderAI" where
  "init c = \<lparr>client = c, system_prompt = build_system_prompt\<rparr>"

text \<open>The loop \<open>for idx, img_bytes in enumerate(images)\<close>, from index \<open>idx\<close> on.\<close>

fun image_messages_from ::
  "nat \<Rightarrow> byte list list \<Rightarrow> string list \<Rightarrow> py_error + content_part list" where
  "image_messages_from idx [] timeframes = Inr []"
| "image_messages_from idx (img_bytes # imgs) timeframes =
     (let base64_image = encode_image_from_bytes img_bytes
      in case (if idx < length timeframes then index timeframes idx
               else Inr ''Unknown'') of
           Inl e \<Rightarrow> Inl e
         | Inr tf \<Rightarrow>
             (case image_messages_from (Suc idx) imgs timeframes of
                Inl e \<Rightarrow> Inl e
              | Inr ms \<Rightarrow>
                  Inr (Image_url (''data:image/jpeg;base64,'' @ base64_image) ''high''
                       # Text (''[Chart '' @ str_nat (idx + 1) @ '': '' @ tf
                               @ '' timeframe]'')
                       # ms)))"

definition image_messages :: "byte list list \<Rightarrow> string list \<Rightarrow> py_error + content_part list" where
  "image_messages images timeframes = image_messages_from 0 images timeframes"

text \<open>\<open>user_context if user_context else 'None provided'\<close>: \<open>None\<close> and the empty string
  are both false.\<close>

definition context_text :: "string option \<Rightarrow> string" where
  "context_text user_context =
     (case user_context of
        None \<Rightarrow> ''None provided''
      | Some c \<Rightarrow> if c = [] then ''None provided'' else c)"

definition user_message_text :: "string \<Rightarrow> string list \<Rightarrow> string option \<Rightarrow> string" where
  "user_message_text p timeframes user_context =
     ''Analyze this '' @ p @ '' setup across the provided timeframes.'' @ [nl, nl]
     @ ''**Timeframes provided:** '' @ join '', '' timeframes @ [nl, nl]
     @ ''**User Context:** '' @ context_text user_context @ [nl, nl]
     @ ''Please provide a complete analysis following the framework.''"

definition build_messages ::
  "FuryTraderAI \<Rightarrow> string \<Rightarrow> string list \<Rightarrow> string option \<Rightarrow> content_part list
     \<Rightarrow> message list" where
  "build_messages self p timeframes user_context image_msgs =
     [\<lparr>role = ''system'', content = Plain (system_prompt self)\<rparr>,
      \<lparr>role = ''user'',
       content = Parts ([Text (user_message_text p timeframes user_context)] @ image_msgs)\<rparr>]"

text \<open>\<open>str(e)\<close> for the exceptions the analyzer's own statements can raise inside the
  \<open>try\<close>: a list index out of range, a tuple assignment from one value, and a method
  called on \<open>None\<close>.\<close>

definition str_error :: "py_error \<Rightarrow> string" where
  "str_error e =
     (case e of
        IndexError \<Rightarrow> ''list index out of range''
      | ValueError \<Rightarrow> ''not enough values to unpack (expected 2, got 1)''
      | AttributeError \<Rightarrow>
          [CHR 0x27] @ ''NoneType'' @ [CHR 0x27] @ '' object has no attribute ''
          @ [CHR 0x27] @ ''split'' @ [CHR 0x27])"

text \<open>The values of the dictionary \<open>analyze_chart\<close> returns.\<close>

datatype val = Bool bool | Str string | Strs "string list" | Parsed AnalysisResult

text \<open>
  The body of the \<open>try\<close>: the call, \<open>response.choices[0].message.content\<close>, the parse
  (\<open>text.split\<close> on \<open>None\<close> raises) and the dictionary of the success case. \<open>Inl d\<close> is an
  exception whose \<open>str\<close> is \<open>d\<close>.
\<close>

definition call_and_parse ::
  "nat \<Rightarrow> FuryTraderAI \<Rightarrow> message list \<Rightarrow> string \<Rightarrow> string list
     \<Rightarrow> string + (string \<rightharpoonup> val)" where
  "call_and_parse maxd self msgs p timeframes =
     (case client self \<lparr>model = ''gpt-4o'', messages = msgs, max_tokens = 2000,
                         temperature = 0.7\<rparr> of
        Inl d \<Rightarrow> Inl d
      | Inr response \<Rightarrow>
          (case index (choices response) 0 of
             Inl e \<Rightarrow> Inl (str_error e)
           | Inr analysis_text \<Rightarrow>
               (case analysis_text of
                  None \<Rightarrow> Inl (str_error AttributeError)
                | Some text \<Rightarrow>
                    (case parse_analysis maxd text p of
                       Inl e \<Rightarrow> Inl (str_error e)
                     | Inr parsed \<Rightarrow>
                         Inr [''success'' \<mapsto> Bool True,
                              ''raw_analysis'' \<mapsto> Str text,
                              ''parsed'' \<mapsto> Parsed parsed,
                              ''pair'' \<mapsto> Str p,
                              ''timeframes'' \<mapsto> Strs timeframes]))))"

text \<open>
  \<open>analyze_chart(self, images, pair, timeframes, user_context)\<close>. The messages are built
  before the \<open>try\<close>, so an error there would leave the function as an exception
  (\<open>Inl\<close>); \<open>except Exception as e\<close> turns every error of the body into the failure
  dictionary.
\<close>

definition analyze_chart ::
  "nat \<Rightarrow> FuryTraderAI \<Rightarrow> byte list list \<Rightarrow> string \<Rightarrow> string list \<Rightarrow> string option
     \<Rightarrow> py_error + (string \<rightharpoonup> val)" where
  "analyze_chart maxd self images p timeframes user_context =
     (case image_messages images timeframes of
        Inl e \<Rightarrow> Inl e
      | Inr image_msgs \<Rightarrow>
          (let msgs = build_messages self p timeframes user_context image_msgs
           in case call_and_parse maxd self msgs p timeframes of
                Inr result \<Rightarrow> Inr result
              | Inl d \<Rightarrow>
                  Inr [''success'' \<mapsto> Bool False,
                       ''error'' \<mapsto> Str d,
                       ''pair'' \<mapsto> Str p,
                       ''timeframes'' \<mapsto> Strs timeframes]))"

section \<open>Reading the parser line by line\<close>

text \<open>
  The notions the description of the parser is written in: what a line contains once it
  is trimmed and upper-cased, which lines are header fields, which are section headers,
  and what one content line adds to the result.
\<close>

definition has :: "string \<Rightarrow> string \<Rightarrow> bool" where
  "has needle raw = contains (cps needle) (upper (strip raw))"

definition header_field :: "string \<Rightarrow> bool" where
  "header_field raw =
     (has ''VERDICT:'' raw \<or> has ''CONFIDENCE:'' raw \<or> has ''SETUP TYPE:'' raw)"

definition section_header :: "string \<Rightarrow> section_name option" where
  "section_header raw =
     (if has ''MARKET STORY'' raw then Some Story
      else if has ''KEY CONFLUENCES'' raw then Some Confluences
      else if has ''SCENARIO A'' raw then Some Scenario_a
      else if has ''SCENARIO B'' raw then Some Scenario_b
      else if has ''SCENARIO C'' raw then Some Scenario_c
      else if has ''CRITICAL LEVELS'' raw then Some Levels
      else None)"

text \<open>The text after the first colon of a line, and the normalised key before it.\<close>

definition rest :: "string \<Rightarrow> string" where
  "rest line = tl (dropWhile (\<lambda>c. c \<noteq> CHR '':'') line)"

definition key_of :: "string \<Rightarrow> string" where
  "key_of line =
     replace CHR '' '' CHR ''_'' (lower (strip (takeWhile (\<lambda>c. c \<noteq> CHR '':'') line)))"

definition gather :: "section_name \<Rightarrow> string \<Rightarrow> AnalysisResult \<Rightarrow> AnalysisResult" where
  "gather sec line parsed =
     (if sec = Story then parsed\<lparr>market_story := market_story parsed @ line @ '' ''\<rparr>
      else if sec = Confluences \<and> startswith line ''-''
        then parsed\<lparr>confluences := confluences parsed @ [strip (drop 1 line)]\<rparr>
      else if sec \<in> {Scenario_a, Scenario_b, Scenario_c} \<and> CHR '':'' \<in> set line
        then store sec (key_of line) (strip (rest line)) parsed
      else parsed)"

text \<open>The state after one iteration, once iterations are known not to fail.\<close>

definition step ::
  "nat \<Rightarrow> AnalysisResult \<times> section_name option \<Rightarrow> string
     \<Rightarrow> AnalysisResult \<times> section_name option" where
  "step maxd st raw = (case process_line maxd st raw of Inl e \<Rightarrow> st | Inr st' \<Rightarrow> st')"

subsection \<open>The headline fields, read off the whole reply\<close>

text \<open>
  The \<open>elif\<close> chain gives a line to the first header pattern it contains, so a line is a
  confidence line when it has \<open>CONFIDENCE:\<close> and no \<open>VERDICT:\<close>, and a setup line when it
  has \<open>SETUP TYPE:\<close> and neither of the other two. A confidence line has a value when
  its digits convert.
\<close>

definition confidence_line :: "string \<Rightarrow> bool" where
  "confidence_line raw = (has ''CONFIDENCE:'' raw \<and> \<not> has ''VERDICT:'' raw)"

definition setup_line :: "string \<Rightarrow> bool" where
  "setup_line raw =
     (has ''SETUP TYPE:'' raw \<and> \<not> has ''VERDICT:'' raw \<and> \<not> has ''CONFIDENCE:'' raw)"

definition remainder :: "string \<Rightarrow> string" where
  "remainder raw = strip (rest (strip raw))"

definition confidence_digits :: "string \<Rightarrow> string" where
  "confidence_digits raw = filter py_isdigit (remainder raw)"

definition converts :: "nat \<Rightarrow> string \<Rightarrow> bool" where
  "converts maxd ds =
     (ds \<noteq> [] \<and> list_all ascii_digit ds
      \<and> (length ds \<le> 640 \<or> maxd = 0 \<or> length ds \<le> maxd))"

definition sets_confidence :: "nat \<Rightarrow> string \<Rightarrow> bool" where
  "sets_confidence maxd raw = (confidence_line raw \<and> converts maxd (confidence_digits raw))"

definition last_or :: "'a \<Rightarrow> 'a list \<Rightarrow> 'a" where
  "last_or d xs = (if xs = [] then d else last xs)"

subsection \<open>The market story, read off the whole reply\<close>

text \<open>
  A content line is a non-empty trimmed line that is neither a header field nor a
  section header. The section active after some lines is the one named by the last
  section header among them. The story lines of a reply are its content lines that come
  while the story section is active.
\<close>

definition content_line :: "string \<Rightarrow> bool" where
  "content_line raw =
     (\<not> header_field raw \<and> section_header raw = None \<and> strip raw \<noteq> [])"

definition switches :: "string \<Rightarrow> bool" where
  "switches raw = (\<not> header_field raw \<and> section_header raw \<noteq> None)"

definition active_section :: "string list \<Rightarrow> section_name option" where
  "active_section ls = last_or None (map section_header (filter switches ls))"

definition story_lines :: "string list \<Rightarrow> string list" where
  "story_lines ls =
     map (\<lambda>i. strip (ls ! i))
       (filter (\<lambda>i. content_line (ls ! i) \<and> active_section (take i ls) = Some Story)
          [0 ..< length ls])"

text \<open>What the loop has established once it has gone through the lines \<open>ls\<close>.\<close>

definition summary :: "nat \<Rightarrow> string \<Rightarrow> string list \<Rightarrow> AnalysisResult \<times> section_name option \<Rightarrow> bool" where
  "summary maxd p ls st =
     (snd st = active_section ls
      \<and> pair (fst st) = p
      \<and> verdict (fst st) = last_or ''UNKNOWN'' (map remainder (filter (has ''VERDICT:'') ls))
      \<and> confidence (fst st) = last_or 5 (map (\<lambda>raw. decimal (confidence_digits raw)) (filter (sets_confidence maxd) ls))
      \<and> setup_type (fst st) = last_or ''Unknown'' (map remainder (filter setup_line ls))
      \<and> market_story (fst st) = concat (map (\<lambda>l. l @ '' '') (story_lines ls))
      \<and> key_levels (fst st) = Map.empty)"

subsection \<open>The captions, read off the image list\<close>

definition timeframe_label :: "string list \<Rightarrow> nat \<Rightarrow> string" where
  "timeframe_label timeframes i =
     (if i < length timeframes then timeframes ! i else ''Unknown'')"

definition caption :: "string list \<Rightarrow> nat \<Rightarrow> string" where
  "caption timeframes i =
     ''[Chart '' @ str_nat (i + 1) @ '': '' @ timeframe_label timeframes i @ '' timeframe]''"

definition image_part :: "byte list \<Rightarrow> content_part" where
  "image_part img =
     Image_url (''data:image/jpeg;base64,'' @ encode_image_from_bytes img) ''high''"

definition request_sent ::
  "FuryTraderAI \<Rightarrow> byte list list \<Rightarrow> string \<Rightarrow> string list \<Rightarrow> string option \<Rightarrow> request" where
  "request_sent self images p timeframes user_context =
     \<lparr>model = ''gpt-4o'',
      messages =
        build_messages self p timeframes user_context
          (concat (map (\<lambda>i. [image_part (images ! i), Text (caption timeframes i)])
                     [0 ..< length images])),
      max_tokens = 2000, temperature = 0.7\<rparr>"

section \<open>No iteration fails\<close>

lemma contains_set: "contains needle hay \<Longrightarrow> set needle \<subseteq> set hay"
proof (induction hay)
  case Nil
  then show ?case by simp
next
  case (Cons h hs)
  from Cons.prems have "prefix needle (h # hs) \<or> contains needle hs" by simp
  then show ?case
  proof
    assume "prefix needle (h # hs)"
    then show ?thesis by (rule set_mono_prefix)
  next
    assume "contains needle hs"
    with Cons.IH show ?thesis by auto
  qed
qed

lemma colon_code: "(of_char c :: nat) = 58 \<longleftrightarrow> c = CHR '':''"
proof -
  have "(of_char CHR '':'' :: nat) = 58" by simp
  then have "(of_char c :: nat) = 58 \<longleftrightarrow> (of_char c :: nat) = of_char CHR '':''"
    by simp
  then show ?thesis by (simp only: of_char_eq_iff)
qed

text \<open>Upper-casing neither makes nor removes a colon.\<close>

lemma upper_cp_colon: "58 \<in> set (upper_cp c) \<Longrightarrow> c = CHR '':''"
  by (auto simp: upper_cp_def Let_def colon_code split: if_splits)

lemma upper_colon: "58 \<in> set (upper line) \<Longrightarrow> CHR '':'' \<in> set line"
  by (auto simp: upper_def dest: upper_cp_colon)

lemma contains_colon:
  assumes "contains (cps needle) (upper line)" and "CHR '':'' \<in> set needle"
  shows "CHR '':'' \<in> set line"
proof -
  from assms(2) have "58 \<in> set (cps needle)"
    by (force simp: cps_def colon_code)
  with contains_set [OF assms(1)] have "58 \<in> set (upper line)" by blast
  then show ?thesis by (rule upper_colon)
qed

lemma after_colon_Inr: "CHR '':'' \<in> set line \<Longrightarrow> after_colon line = Inr (rest line)"
  by (simp add: after_colon_def split1_def index_def rest_def)

lemma has_colon:
  "has needle raw \<Longrightarrow> CHR '':'' \<in> set needle
     \<Longrightarrow> after_colon (strip raw) = Inr (rest (strip raw))"
  unfolding has_def by (rule after_colon_Inr, erule contains_colon)

lemma collect_gather: "collect sec line parsed = Inr (gather sec line parsed)"
  by (simp add: collect_def gather_def split1_def key_of_def rest_def)

lemma process_verdict:
  assumes "has ''VERDICT:'' raw"
  shows "process_line maxd (parsed, cur) raw =
           Inr (parsed\<lparr>verdict := strip (rest (strip raw))\<rparr>, cur)"
proof -
  have "after_colon (strip raw) = Inr (rest (strip raw))"
    using assms by (rule has_colon) simp
  with assms show ?thesis
    by (simp add: process_line_def has_def)
qed

lemma process_confidence:
  assumes "\<not> has ''VERDICT:'' raw" and "has ''CONFIDENCE:'' raw"
  shows "process_line maxd (parsed, cur) raw =
           Inr (case py_int maxd (filter py_isdigit (strip (rest (strip raw)))) of
                  Inl e \<Rightarrow> (parsed, cur)
                | Inr n \<Rightarrow> (parsed\<lparr>confidence := n\<rparr>, cur))"
proof -
  have "after_colon (strip raw) = Inr (rest (strip raw))"
    using assms(2) by (rule has_colon) simp
  with assms show ?thesis
    by (simp add: process_line_def has_def split: sum.split)
qed

lemma process_setup:
  assumes "\<not> has ''VERDICT:'' raw" and "\<not> has ''CONFIDENCE:'' raw"
    and "has ''SETUP TYPE:'' raw"
  shows "process_line maxd (parsed, cur) raw =
           Inr (parsed\<lparr>setup_type := strip (rest (strip raw))\<rparr>, cur)"
proof -
  have "after_colon (strip raw) = Inr (rest (strip raw))"
    using assms(3) by (rule has_colon) simp
  with assms show ?thesis
    by (simp add: process_line_def has_def)
qed

lemma process_section:
  assumes "\<not> header_field raw" and "section_header raw = Some sec"
  shows "process_line maxd (parsed, cur) raw = Inr (parsed, Some sec)"
  using assms
  by (simp add: process_line_def header_field_def section_header_def has_def
           split: if_splits)

lemma process_content:
  assumes "\<not> header_field raw" and "section_header raw = None"
  shows "process_line maxd (parsed, cur) raw =
           Inr (case cur of
                  None \<Rightarrow> parsed
                | Some sec \<Rightarrow>
                    if strip raw \<noteq> [] then gather sec (strip raw) parsed else parsed,
                cur)"
  using assms
  by (simp add: process_line_def header_field_def section_header_def has_def
           collect_gather split: if_splits option.split)

lemma process_line_total: "\<exists>st'. process_line maxd st raw = Inr st'"
proof -
  obtain parsed cur where st: "st = (parsed, cur)" by (cases st)
  show ?thesis
  proof (cases "header_field raw")
    case True
    then consider "has ''VERDICT:'' raw"
      | "\<not> has ''VERDICT:'' raw" "has ''CONFIDENCE:'' raw"
      | "\<not> has ''VERDICT:'' raw" "\<not> has ''CONFIDENCE:'' raw" "has ''SETUP TYPE:'' raw"
      unfolding header_field_def by blast
    then show ?thesis
      unfolding st
      by cases (simp_all add: process_verdict process_confidence process_setup)
  next
    case False
    then show ?thesis
      unfolding st
      by (cases "section_header raw") (simp_all add: process_section process_content)
  qed
qed

lemma process_line_step: "process_line maxd st raw = Inr (step maxd st raw)"
  using process_line_total [of maxd st raw] by (auto simp: step_def)

lemma run_lines_foldl: "run_lines maxd st ls = Inr (foldl (step maxd) st ls)"
  by (induction ls arbitrary: st) (simp_all add: process_line_step)

lemma parse_analysis_foldl:
  "parse_analysis maxd text p =
     Inr (fst (foldl (step maxd) (initial p, None) (split nl text)))"
  by (simp add: parse_analysis_def run_lines_foldl)

section \<open>What the loop establishes\<close>


lemma step_verdict:
  "has ''VERDICT:'' raw \<Longrightarrow> step maxd (parsed, cur) raw = (parsed\<lparr>verdict := remainder raw\<rparr>, cur)"
  by (simp add: step_def process_verdict remainder_def)

lemma py_int_converts:
  "py_int maxd ds = (if converts maxd ds then Inr (decimal ds) else Inl ValueError)"
  by (auto simp: py_int_def converts_def)

lemma step_confidence:
  "confidence_line raw \<Longrightarrow>
     step maxd (parsed, cur) raw =
       (if sets_confidence maxd raw then parsed\<lparr>confidence := decimal (confidence_digits raw)\<rparr>
        else parsed, cur)"
  by (simp add: step_def process_confidence confidence_line_def sets_confidence_def
        py_int_converts confidence_digits_def remainder_def)

lemma step_setup:
  "setup_line raw \<Longrightarrow> step maxd (parsed, cur) raw = (parsed\<lparr>setup_type := remainder raw\<rparr>, cur)"
  by (simp add: step_def process_setup setup_line_def remainder_def)

lemma step_switch:
  "switches raw \<Longrightarrow> step maxd (parsed, cur) raw = (parsed, section_header raw)"
  by (auto simp add: step_def process_section switches_def)

lemma step_other:
  "\<not> header_field raw \<Longrightarrow> section_header raw = None \<Longrightarrow>
     step maxd (parsed, cur) raw =
       (case cur of None \<Rightarrow> parsed
        | Some sec \<Rightarrow> if strip raw \<noteq> [] then gather sec (strip raw) parsed else parsed, cur)"
  by (simp add: step_def process_content)

lemma line_cases:
  obtains (verdict) "has ''VERDICT:'' raw" | (confidence) "confidence_line raw"
    | (setupl) "setup_line raw" | (switch) "switches raw"
    | (other) "\<not> header_field raw" "section_header raw = None"
  unfolding confidence_line_def setup_line_def switches_def header_field_def by blast

lemma line_class_excl:
  "has ''VERDICT:'' raw \<Longrightarrow> \<not> confidence_line raw \<and> \<not> setup_line raw \<and> \<not> switches raw \<and> \<not> content_line raw"
  "confidence_line raw \<Longrightarrow> \<not> has ''VERDICT:'' raw \<and> \<not> setup_line raw \<and> \<not> switches raw \<and> \<not> content_line raw"
  "setup_line raw \<Longrightarrow> \<not> has ''VERDICT:'' raw \<and> \<not> confidence_line raw \<and> \<not> switches raw \<and> \<not> content_line raw"
  "switches raw \<Longrightarrow> \<not> has ''VERDICT:'' raw \<and> \<not> confidence_line raw \<and> \<not> setup_line raw \<and> \<not> content_line raw"
  "\<not> header_field raw \<Longrightarrow> \<not> has ''VERDICT:'' raw \<and> \<not> confidence_line raw \<and> \<not> setup_line raw"
  by (auto simp: confidence_line_def setup_line_def switches_def header_field_def content_line_def)

lemma store_fields:
  "verdict (store sec k v parsed) = verdict parsed"
  "confidence (store sec k v parsed) = confidence parsed"
  "setup_type (store sec k v parsed) = setup_type parsed"
  "market_story (store sec k v parsed) = market_story parsed"
  "confluences (store sec k v parsed) = confluences parsed"
  "key_levels (store sec k v parsed) = key_levels parsed"
  "pair (store sec k v parsed) = pair parsed"
  by (cases sec; simp)+

lemma gather_fields:
  "verdict (gather sec line parsed) = verdict parsed"
  "confidence (gather sec line parsed) = confidence parsed"
  "setup_type (gather sec line parsed) = setup_type parsed"
  "key_levels (gather sec line parsed) = key_levels parsed"
  "pair (gather sec line parsed) = pair parsed"
  by (simp_all add: gather_def store_fields)

lemma gather_story:
  "market_story (gather sec line parsed) =
     (if sec = Story then market_story parsed @ line @ '' '' else market_story parsed)"
  by (simp add: gather_def store_fields)

lemma active_section_snoc:
  "active_section (ls @ [raw]) = (if switches raw then section_header raw else active_section ls)"
  by (simp add: active_section_def last_or_def)

lemma story_lines_snoc:
  "story_lines (ls @ [raw]) =
     story_lines ls @ (if content_line raw \<and> active_section ls = Some Story then [strip raw] else [])"
proof -
  have "filter (\<lambda>i. content_line ((ls @ [raw]) ! i) \<and> active_section (take i (ls @ [raw])) = Some Story) [0 ..< length ls]
      = filter (\<lambda>i. content_line (ls ! i) \<and> active_section (take i ls) = Some Story) [0 ..< length ls]"
    by (rule filter_cong) (simp_all add: nth_append)
  moreover have "map (\<lambda>i. strip ((ls @ [raw]) ! i)) (filter (\<lambda>i. content_line (ls ! i) \<and> active_section (take i ls) = Some Story) [0 ..< length ls])
      = map (\<lambda>i. strip (ls ! i)) (filter (\<lambda>i. content_line (ls ! i) \<and> active_section (take i ls) = Some Story) [0 ..< length ls])"
    by (rule map_cong) (simp_all add: nth_append)
  ultimately show ?thesis
    by (simp add: story_lines_def)
qed

lemma summary_init: "summary maxd p [] (initial p, None)"
  by (simp add: summary_def initial_def active_section_def last_or_def story_lines_def)

lemma summary_step:
  assumes "summary maxd p ls st"
  shows "summary maxd p (ls @ [raw]) (step maxd st raw)"
proof -
  obtain parsed cur where st: "st = (parsed, cur)" by (cases st)
  show ?thesis
  proof (cases raw rule: line_cases)
    case verdict
    with assms line_class_excl(1) [OF verdict] show ?thesis
      by (simp add: st summary_def sets_confidence_def step_verdict active_section_snoc story_lines_snoc last_or_def)
  next
    case confidence
    with assms line_class_excl(2) [OF confidence] show ?thesis
      by (simp add: st summary_def step_confidence active_section_snoc story_lines_snoc last_or_def
            sets_confidence_def)
  next
    case setupl
    with assms line_class_excl(3) [OF setupl] show ?thesis
      by (simp add: st summary_def sets_confidence_def step_setup active_section_snoc story_lines_snoc last_or_def)
  next
    case switch
    with assms line_class_excl(4) [OF switch] show ?thesis
      by (simp add: st summary_def sets_confidence_def step_switch active_section_snoc story_lines_snoc)
  next
    case other
    with assms line_class_excl(5) [OF other(1)] show ?thesis
      by (auto simp add: st summary_def sets_confidence_def step_other active_section_snoc story_lines_snoc
            switches_def content_line_def gather_fields gather_story split: option.split)
  qed
qed

lemma summary_foldl: "summary maxd p ls (foldl (step maxd) (initial p, None) ls)"
  by (induction ls rule: rev_induct) (simp_all add: summary_init summary_step)


lemma spaced_end:
  "concat (map (\<lambda>l. l @ '' '') xs) = []
     \<or> last (concat (map (\<lambda>l. l @ '' '') xs)) = CHR '' ''"
  by (cases xs rule: rev_cases) simp_all

section \<open>Splitting, joining and trimming\<close>

lemma split_plain: "sep \<notin> set x \<Longrightarrow> split sep x = [x]"
  by (induction x) (auto simp add: Let_def)

lemma split_cut: "sep \<notin> set x \<Longrightarrow> split sep (x @ sep # ys) = x # split sep ys"
  by (induction x) (auto simp add: Let_def)

lemma split_join:
  "ls \<noteq> [] \<Longrightarrow> \<forall>l\<in>set ls. sep \<notin> set l \<Longrightarrow> split sep (join [sep] ls) = ls"
proof (induction "[sep]" ls rule: join.induct)
  case 1
  then show ?case by simp
next
  case (2 x)
  then show ?case by (simp add: split_plain)
next
  case (3 x y ys)
  then show ?case by (simp add: split_cut del: split.simps)
qed

text \<open>Trimming a line that begins with a dash and a space, and the key it gives.\<close>

lemma rstrip_dash:
  "rev (dropWhile py_isspace (rev name @ '' -'')) =
     (if list_ex (\<lambda>c. \<not> py_isspace c) name
      then ''- '' @ rev (dropWhile py_isspace (rev name)) else ''-'')"
proof -
  have sp: "py_isspace CHR '' ''" and da: "\<not> py_isspace CHR ''-''"
    by code_simp+
  show ?thesis
  proof (cases "list_ex (\<lambda>c. \<not> py_isspace c) name")
    case True
    then have "\<exists>c\<in>set (rev name). \<not> py_isspace c"
      by (simp add: list_ex_iff)
    then have "dropWhile py_isspace (rev name @ '' -'') = dropWhile py_isspace (rev name) @ '' -''"
      by (auto simp: dropWhile_append1)
    with True show ?thesis by simp
  next
    case False
    then have "\<forall>c\<in>set (rev name). py_isspace c"
      by (simp add: list_ex_iff)
    then have "dropWhile py_isspace (rev name @ '' -'') = dropWhile py_isspace '' -''"
      by (intro dropWhile_append2) simp
    with sp da have "dropWhile py_isspace (rev name @ '' -'') = ''-''"
      by simp
    with False show ?thesis by simp
  qed
qed

lemma strip_dash:
  "strip (CHR ''-'' # CHR '' '' # name) =
     (if list_ex (\<lambda>c. \<not> py_isspace c) name
      then ''- '' @ rev (dropWhile py_isspace (rev name)) else ''-'')"
proof -
  have "\<not> py_isspace CHR ''-''" by code_simp
  then have "dropWhile py_isspace (CHR ''-'' # CHR '' '' # name) = CHR ''-'' # CHR '' '' # name"
    by simp
  moreover have "rev (CHR ''-'' # CHR '' '' # name) = rev name @ '' -''" by simp
  ultimately show ?thesis
    unfolding strip_def by (simp only: rstrip_dash)
qed

lemma key_of_dash:
  "key_of (CHR ''-'' # CHR '' '' # body) =
     (if list_ex (\<lambda>c. \<not> py_isspace c) (takeWhile (\<lambda>c. c \<noteq> CHR '':'') body)
      then ''-_'' @ replace CHR '' '' CHR ''_''
             (lower (rev (dropWhile py_isspace (rev (takeWhile (\<lambda>c. c \<noteq> CHR '':'') body)))))
      else ''-'')"
proof -
  have l: "lower_char CHR ''-'' = CHR ''-''" "lower_char CHR '' '' = CHR '' ''"
    by code_simp+
  have "takeWhile (\<lambda>c. c \<noteq> CHR '':'') (CHR ''-'' # CHR '' '' # body)
          = CHR ''-'' # CHR '' '' # takeWhile (\<lambda>c. c \<noteq> CHR '':'') body"
    by simp
  then show ?thesis
    by (simp add: key_of_def strip_dash lower_def replace_def l)
qed

lemma rest_dash: "rest (CHR ''-'' # CHR '' '' # body) = rest body"
  by (simp add: rest_def)

section \<open>The image messages\<close>

lemma index_nth: "i < length xs \<Longrightarrow> index xs i = Inr (xs ! i)"
  by (simp add: index_def)

lemma upt_shift: "[0 ..< Suc n] = 0 # map Suc [0 ..< n]"
  by (metis upt_conv_Cons map_Suc_upt zero_less_Suc)

lemma image_messages_from_eq:
  "image_messages_from idx imgs timeframes =
     Inr (concat (map (\<lambda>i. [image_part (imgs ! i), Text (caption timeframes (idx + i))])
                    [0 ..< length imgs]))"
proof (induction imgs arbitrary: idx)
  case Nil
  show ?case by simp
next
  case (Cons img imgs)
  have tf: "(if idx < length timeframes then index timeframes idx else Inr ''Unknown'')
              = Inr (timeframe_label timeframes idx)"
    by (simp add: timeframe_label_def index_nth)
  show ?case
    by (simp add: Cons.IH tf upt_shift image_part_def caption_def comp_def
          del: upt_Suc)
qed

lemma image_messages_eq:
  "image_messages images timeframes =
     Inr (concat (map (\<lambda>i. [image_part (images ! i), Text (caption timeframes i)])
                    [0 ..< length images]))"
  by (simp add: image_messages_def image_messages_from_eq)

lemma pairs_length: "length (concat (map (\<lambda>i. [f i, g i]) [0 ..< n])) = 2 * n"
  by (induction n) simp_all

lemma pairs_nth:
  "i < n \<Longrightarrow>
     concat (map (\<lambda>i. [f i, g i]) [0 ..< n]) ! (2 * i) = f i
     \<and> concat (map (\<lambda>i. [f i, g i]) [0 ..< n]) ! (2 * i + 1) = g i"
proof (induction n)
  case 0
  then show ?case by simp
next
  case (Suc n)
  show ?case
  proof (cases "i < n")
    case True
    with Suc.IH show ?thesis
      by (simp add: nth_append pairs_length)
  next
    case False
    with Suc.prems have "i = n" by simp
    then show ?thesis
      by (simp add: nth_append pairs_length)
  qed
qed

section \<open>The call to the Model\<close>

lemma analyze_chart_eq:
  "analyze_chart maxd self images p timeframes user_context =
     Inr (case call_and_parse maxd self
                 (messages (request_sent self images p timeframes user_context)) p timeframes of
            Inr result \<Rightarrow> result
          | Inl d \<Rightarrow>
              [''success'' \<mapsto> Bool False, ''error'' \<mapsto> Str d, ''pair'' \<mapsto> Str p,
               ''timeframes'' \<mapsto> Strs timeframes])"
  by (simp add: analyze_chart_def image_messages_eq request_sent_def split: sum.split)

lemma call_raises:
  assumes "client self (request_sent self images p timeframes user_context) = Inl d"
  shows "call_and_parse maxd self
           (messages (request_sent self images p timeframes user_context)) p timeframes = Inl d"
proof -
  have "\<lparr>model = ''gpt-4o'',
         messages = messages (request_sent self images p timeframes user_context),
         max_tokens = 2000, temperature = 0.7\<rparr>
        = request_sent self images p timeframes user_context"
    by (simp add: request_sent_def)
  with assms show ?thesis
    by (simp add: call_and_parse_def)
qed

lemma call_returns:
  assumes "client self (request_sent self images p timeframes user_context) = Inr response"
  shows "call_and_parse maxd self
           (messages (request_sent self images p timeframes user_context)) p timeframes =
         (case choices response of
            [] \<Rightarrow> Inl (str_error IndexError)
          | None # others \<Rightarrow> Inl (str_error AttributeError)
          | Some text # others \<Rightarrow>
              (case parse_analysis maxd text p of
                 Inl e \<Rightarrow> Inl (str_error e)
               | Inr parsed \<Rightarrow>
                   Inr [''success'' \<mapsto> Bool True, ''raw_analysis'' \<mapsto> Str text,
                        ''parsed'' \<mapsto> Parsed parsed, ''pair'' \<mapsto> Str p,
                        ''timeframes'' \<mapsto> Strs timeframes]))"
proof -
  have "\<lparr>model = ''gpt-4o'',
         messages = messages (request_sent self images p timeframes user_context),
         max_tokens = 2000, temperature = 0.7\<rparr>
        = request_sent self images p timeframes user_context"
    by (simp add: request_sent_def)
  with assms show ?thesis
    by (simp add: call_and_parse_def index_def split: list.split option.split)
qed

section \<open>The properties of the analyzer\<close>

text \<open>
  C1. The parser is total: for every reply text and every pair, \<open>_parse_analysis\<close> returns
  a result and raises nothing, whatever the interpreter's digit limit. Every single
  iteration of its loop returns as well, from every state and on every line; the
  conversion of the confidence digits is the one step that can fail, and the bare
  \<open>except\<close> around it keeps the failure inside the iteration.
\<close>

theorem parse_analysis_total:
  "(\<exists>r. parse_analysis maxd text p = Inr r) \<and> (\<exists>st'. process_line maxd st raw = Inr st')"
  by (simp add: parse_analysis_foldl process_line_step)

theorem parse_analysis_total_witness:
  "(\<exists>r. parse_analysis 4300 [CHR 0xFF, CHR 0x00, CHR '':'', CHR 0xB2] ''EUR/USD'' = Inr r)
   \<and> (\<exists>st'. process_line 4300 (initial ''EUR/USD'', None) ''CONFIDENCE: high'' = Inr st')"
  by (rule parse_analysis_total)

text \<open>
  C2. Default floor: the empty reply, with any pair, parses to the result that has the
  caller's pair, verdict \<open>UNKNOWN\<close>, confidence 5, setup type \<open>Unknown\<close>, an empty market
  story, no confluences, and empty mappings for the three scenarios and the key levels.
\<close>

theorem default_floor:
  "parse_analysis maxd '''' p =
     Inr \<lparr>pair = p, verdict = ''UNKNOWN'', confidence = 5, setup_type = ''Unknown'',
          market_story = '''', confluences = [], scenario_a = Map.empty,
          scenario_b = Map.empty, scenario_c = Map.empty, key_levels = Map.empty\<rparr>"
  by (simp add: parse_analysis_def process_line_def initial_def strip_def upper_def cps_def)

theorem default_floor_witness:
  "parse_analysis 4300 '''' ''EUR/USD'' =
     Inr \<lparr>pair = ''EUR/USD'', verdict = ''UNKNOWN'', confidence = 5,
          setup_type = ''Unknown'', market_story = '''', confluences = [],
          scenario_a = Map.empty, scenario_b = Map.empty, scenario_c = Map.empty,
          key_levels = Map.empty\<rparr>"
  by (rule default_floor)

text \<open>
  C3. Confidence extraction. A line that has \<open>CONFIDENCE:\<close> in any letter case, and that
  the earlier \<open>VERDICT:\<close> test of the \<open>elif\<close> chain has not taken, is read as follows: all
  the digit characters of the trimmed text after the first colon are concatenated
  (\<open>confidence_digits\<close>); when \<open>int\<close> accepts the concatenation the confidence becomes its
  decimal value, and otherwise the iteration changes nothing and raises nothing. With no
  digit after the colon the state is unchanged. The reply \<open>CONFIDENCE: 8/10\<close> gives 810.
\<close>

theorem confidence_extraction:
  assumes "has ''CONFIDENCE:'' raw" and "\<not> has ''VERDICT:'' raw"
  shows "process_line maxd (parsed, cur) raw =
           Inr (if converts maxd (confidence_digits raw)
                then parsed\<lparr>confidence := decimal (confidence_digits raw)\<rparr>
                else parsed, cur)
         \<and> (confidence_digits raw = [] \<longrightarrow>
               process_line maxd (parsed, cur) raw = Inr (parsed, cur))
         \<and> parse_analysis maxd ''CONFIDENCE: 8/10'' p = Inr ((initial p)\<lparr>confidence := 810\<rparr>)"
proof (intro conjI)
  show main: "process_line maxd (parsed, cur) raw =
           Inr (if converts maxd (confidence_digits raw)
                then parsed\<lparr>confidence := decimal (confidence_digits raw)\<rparr>
                else parsed, cur)"
    using assms
    by (simp add: process_confidence py_int_converts confidence_digits_def remainder_def)
  show "confidence_digits raw = [] \<longrightarrow> process_line maxd (parsed, cur) raw = Inr (parsed, cur)"
    by (simp add: main converts_def)
  have a: "has ''CONFIDENCE:'' ''CONFIDENCE: 8/10''"
    and b: "\<not> has ''VERDICT:'' ''CONFIDENCE: 8/10''"
    and c: "filter py_isdigit (strip (rest (strip ''CONFIDENCE: 8/10''))) = ''810''"
    and d: "split nl ''CONFIDENCE: 8/10'' = [''CONFIDENCE: 8/10'']"
    and e: "decimal ''810'' = 810"
    and f: "ascii_digit CHR ''8''" "ascii_digit CHR ''1''" "ascii_digit CHR ''0''"
    by code_simp+
  have g: "converts maxd ''810''"
    by (simp add: converts_def f)
  show "parse_analysis maxd ''CONFIDENCE: 8/10'' p = Inr ((initial p)\<lparr>confidence := 810\<rparr>)"
    unfolding parse_analysis_def d
    by (simp add: process_confidence [OF b a] c py_int_converts e g)
qed

theorem confidence_extraction_witness:
  "has ''CONFIDENCE:'' ''**Confidence:** 9 of 10''
   \<and> \<not> has ''VERDICT:'' ''**Confidence:** 9 of 10''
   \<and> process_line 4300 (initial ''GBP/CAD'', Some Story) ''**Confidence:** 9 of 10''
       = Inr ((initial ''GBP/CAD'')\<lparr>confidence := 910\<rparr>, Some Story)
   \<and> has ''CONFIDENCE:'' ''Confidence: high''
   \<and> \<not> has ''VERDICT:'' ''Confidence: high''
   \<and> process_line 4300 ((initial ''GBP/CAD'')\<lparr>confidence := 7\<rparr>, None) ''Confidence: high''
       = Inr ((initial ''GBP/CAD'')\<lparr>confidence := 7\<rparr>, None)"
proof -
  have a: "has ''CONFIDENCE:'' ''**Confidence:** 9 of 10''"
    and b: "\<not> has ''VERDICT:'' ''**Confidence:** 9 of 10''"
    and c: "confidence_digits ''**Confidence:** 9 of 10'' = ''910''"
    and e: "decimal ''910'' = 910"
    and f: "ascii_digit CHR ''9''" "ascii_digit CHR ''1''" "ascii_digit CHR ''0''"
    and a': "has ''CONFIDENCE:'' ''Confidence: high''"
    and b': "\<not> has ''VERDICT:'' ''Confidence: high''"
    and c': "confidence_digits ''Confidence: high'' = ''''"
    by code_simp+
  have g: "converts 4300 ''910''"
    by (simp add: converts_def f)
  have "process_line 4300 (initial ''GBP/CAD'', Some Story) ''**Confidence:** 9 of 10''
       = Inr ((initial ''GBP/CAD'')\<lparr>confidence := 910\<rparr>, Some Story)"
    using confidence_extraction [OF a b, of 4300 "initial ''GBP/CAD''" "Some Story"]
    by (simp only: c g e if_True)
  moreover have "process_line 4300 ((initial ''GBP/CAD'')\<lparr>confidence := 7\<rparr>, None) ''Confidence: high''
       = Inr ((initial ''GBP/CAD'')\<lparr>confidence := 7\<rparr>, None)"
    using confidence_extraction [OF a' b', of 4300 "(initial ''GBP/CAD'')\<lparr>confidence := 7\<rparr>" None] c'
    by blast
  ultimately show ?thesis
    using a b a' b' by blast
qed

text \<open>
  C3, where the stated rule fails. The line \<open>VERDICT: YES | CONFIDENCE: 8/10\<close> contains
  \<open>CONFIDENCE:\<close> and the digits after its first colon are \<open>810\<close>, but the \<open>VERDICT:\<close> test
  comes first in the \<open>elif\<close> chain and takes the line: the verdict is set and the
  confidence stays at its default 5.
\<close>

theorem confidence_extraction_counterexample:
  "has ''CONFIDENCE:'' ''VERDICT: YES | CONFIDENCE: 8/10''
   \<and> filter py_isdigit (strip (rest (strip ''VERDICT: YES | CONFIDENCE: 8/10''))) = ''810''
   \<and> parse_analysis 4300 ''VERDICT: YES | CONFIDENCE: 8/10'' ''EUR/USD''
       = Inr ((initial ''EUR/USD'')\<lparr>verdict := ''YES | CONFIDENCE: 8/10''\<rparr>)
   \<and> confidence ((initial ''EUR/USD'')\<lparr>verdict := ''YES | CONFIDENCE: 8/10''\<rparr>) = 5"
proof -
  have a: "has ''CONFIDENCE:'' ''VERDICT: YES | CONFIDENCE: 8/10''"
    and v: "has ''VERDICT:'' ''VERDICT: YES | CONFIDENCE: 8/10''"
    and c: "filter py_isdigit (strip (rest (strip ''VERDICT: YES | CONFIDENCE: 8/10''))) = ''810''"
    and d: "split nl ''VERDICT: YES | CONFIDENCE: 8/10'' = [''VERDICT: YES | CONFIDENCE: 8/10'']"
    and r: "strip (rest (strip ''VERDICT: YES | CONFIDENCE: 8/10'')) = ''YES | CONFIDENCE: 8/10''"
    by code_simp+
  have "parse_analysis 4300 ''VERDICT: YES | CONFIDENCE: 8/10'' ''EUR/USD''
       = Inr ((initial ''EUR/USD'')\<lparr>verdict := ''YES | CONFIDENCE: 8/10''\<rparr>)"
    unfolding parse_analysis_def d
    by (simp add: process_verdict [OF v] r)
  moreover have "confidence ((initial ''EUR/USD'')\<lparr>verdict := ''YES | CONFIDENCE: 8/10''\<rparr>) = 5"
    by (simp add: initial_def)
  ultimately show ?thesis
    using a c by blast
qed

text \<open>
  C4. Section accumulation. The reply with a confluences section of two bullets and a
  scenario A section of two fields parses, for any pair, to the defaults with the
  confluences \<open>FVG present\<close> and \<open>Clean structure\<close> in that order and scenario A mapping
  \<open>entry\<close> to \<open>1.2500\<close> and \<open>stop_loss\<close> to \<open>1.2450\<close>, and nothing else. In general a content
  line with a colon, read in a scenario section, is stored in that scenario under the text
  before its first colon, trimmed, lower-cased and with spaces replaced by underscores,
  with the trimmed text after that colon as value; so \<open>Take Profit: 1.2600\<close> is stored
  under \<open>take_profit\<close>.
\<close>

theorem section_accumulation:
  "parse_analysis maxd
     (''KEY CONFLUENCES:'' @ [nl] @ ''- FVG present'' @ [nl] @ ''- Clean structure'' @ [nl]
      @ ''SCENARIO A - THE PRIMARY'' @ [nl] @ ''Entry: 1.2500'' @ [nl]
      @ ''Stop Loss: 1.2450'' @ [nl]) p
     = Inr ((initial p)\<lparr>confluences := [''FVG present'', ''Clean structure''],
                         scenario_a := [''entry'' \<mapsto> ''1.2500'', ''stop_loss'' \<mapsto> ''1.2450'']\<rparr>)
   \<and> (content_line raw \<and> CHR '':'' \<in> set (strip raw)
        \<and> sec \<in> {Scenario_a, Scenario_b, Scenario_c} \<longrightarrow>
        process_line maxd (parsed, Some sec) raw =
          Inr (store sec
                 (replace CHR '' '' CHR ''_''
                    (lower (strip (takeWhile (\<lambda>c. c \<noteq> CHR '':'') (strip raw)))))
                 (strip (rest (strip raw))) parsed, Some sec))
   \<and> process_line maxd (parsed, Some Scenario_a) ''Take Profit: 1.2600''
       = Inr (parsed\<lparr>scenario_a := (scenario_a parsed)(''take_profit'' \<mapsto> ''1.2600'')\<rparr>,
              Some Scenario_a)"
proof (intro conjI impI)
  have d: "split nl
     (''KEY CONFLUENCES:'' @ [nl] @ ''- FVG present'' @ [nl] @ ''- Clean structure'' @ [nl]
      @ ''SCENARIO A - THE PRIMARY'' @ [nl] @ ''Entry: 1.2500'' @ [nl]
      @ ''Stop Loss: 1.2450'' @ [nl])
     = [''KEY CONFLUENCES:'', ''- FVG present'', ''- Clean structure'',
        ''SCENARIO A - THE PRIMARY'', ''Entry: 1.2500'', ''Stop Loss: 1.2450'', '''']"
    by code_simp
  have h1: "\<not> header_field ''KEY CONFLUENCES:''"
    and s1: "section_header ''KEY CONFLUENCES:'' = Some Confluences"
    and h2: "\<not> header_field ''- FVG present''"
    and s2: "section_header ''- FVG present'' = None"
    and h3: "\<not> header_field ''- Clean structure''"
    and s3: "section_header ''- Clean structure'' = None"
    and h4: "\<not> header_field ''SCENARIO A - THE PRIMARY''"
    and s4: "section_header ''SCENARIO A - THE PRIMARY'' = Some Scenario_a"
    and h5: "\<not> header_field ''Entry: 1.2500''"
    and s5: "section_header ''Entry: 1.2500'' = None"
    and h6: "\<not> header_field ''Stop Loss: 1.2450''"
    and s6: "section_header ''Stop Loss: 1.2450'' = None"
    and h7: "\<not> header_field ''''"
    and s7: "section_header '''' = None"
    by code_simp+
  have v: "strip ''- FVG present'' = ''- FVG present''"
    "strip ''- Clean structure'' = ''- Clean structure''"
    "strip ''Entry: 1.2500'' = ''Entry: 1.2500''"
    "strip ''Stop Loss: 1.2450'' = ''Stop Loss: 1.2450''"
    "strip '''' = ''''"
    "startswith ''- FVG present'' ''-''"
    "startswith ''- Clean structure'' ''-''"
    "strip '' FVG present'' = ''FVG present''"
    "strip '' Clean structure'' = ''Clean structure''"
    "key_of ''Entry: 1.2500'' = ''entry''"
    "key_of ''Stop Loss: 1.2450'' = ''stop_loss''"
    "strip (rest ''Entry: 1.2500'') = ''1.2500''"
    "strip (rest ''Stop Loss: 1.2450'') = ''1.2450''"
    by code_simp+
  show "parse_analysis maxd
     (''KEY CONFLUENCES:'' @ [nl] @ ''- FVG present'' @ [nl] @ ''- Clean structure'' @ [nl]
      @ ''SCENARIO A - THE PRIMARY'' @ [nl] @ ''Entry: 1.2500'' @ [nl]
      @ ''Stop Loss: 1.2450'' @ [nl]) p
     = Inr ((initial p)\<lparr>confluences := [''FVG present'', ''Clean structure''],
                         scenario_a := [''entry'' \<mapsto> ''1.2500'', ''stop_loss'' \<mapsto> ''1.2450'']\<rparr>)"
    unfolding parse_analysis_def d
    by (simp add: process_section [OF h1 s1] process_content [OF h2 s2]
          process_content [OF h3 s3] process_section [OF h4 s4] process_content [OF h5 s5]
          process_content [OF h6 s6] process_content [OF h7 s7] gather_def v initial_def)
next
  assume a: "content_line raw \<and> CHR '':'' \<in> set (strip raw)
        \<and> sec \<in> {Scenario_a, Scenario_b, Scenario_c}"
  then have "\<not> header_field raw" and "section_header raw = None" and "strip raw \<noteq> []"
    by (simp_all add: content_line_def)
  with a show "process_line maxd (parsed, Some sec) raw =
          Inr (store sec
                 (replace CHR '' '' CHR ''_''
                    (lower (strip (takeWhile (\<lambda>c. c \<noteq> CHR '':'') (strip raw)))))
                 (strip (rest (strip raw))) parsed, Some sec)"
    by (auto simp add: process_content gather_def key_of_def)
next
  have h: "\<not> header_field ''Take Profit: 1.2600''"
    and s: "section_header ''Take Profit: 1.2600'' = None"
    and v: "strip ''Take Profit: 1.2600'' = ''Take Profit: 1.2600''"
      "key_of ''Take Profit: 1.2600'' = ''take_profit''"
      "strip (rest ''Take Profit: 1.2600'') = ''1.2600''"
    by code_simp+
  show "process_line maxd (parsed, Some Scenario_a) ''Take Profit: 1.2600''
       = Inr (parsed\<lparr>scenario_a := (scenario_a parsed)(''take_profit'' \<mapsto> ''1.2600'')\<rparr>,
              Some Scenario_a)"
    by (simp add: process_content [OF h s] gather_def v)
qed

theorem section_accumulation_witness:
  "content_line ''  Risk Reward : 1 to 3 '' \<and> CHR '':'' \<in> set (strip ''  Risk Reward : 1 to 3 '')
   \<and> process_line 4300 (initial ''EUR/USD'', Some Scenario_b) ''  Risk Reward : 1 to 3 ''
       = Inr ((initial ''EUR/USD'')\<lparr>scenario_b := [''risk_reward'' \<mapsto> ''1 to 3'']\<rparr>,
              Some Scenario_b)"
proof -
  have a: "content_line ''  Risk Reward : 1 to 3 ''"
    and b: "CHR '':'' \<in> set (strip ''  Risk Reward : 1 to 3 '')"
    and k: "replace CHR '' '' CHR ''_''
              (lower (strip (takeWhile (\<lambda>c. c \<noteq> CHR '':'') (strip ''  Risk Reward : 1 to 3 ''))))
            = ''risk_reward''"
    and v: "strip (rest (strip ''  Risk Reward : 1 to 3 '')) = ''1 to 3''"
    by code_simp+
  have c: "Scenario_b \<in> {Scenario_a, Scenario_b, Scenario_c}" by simp
  from section_accumulation [of 4300 "''EUR/USD''" "''  Risk Reward : 1 to 3 ''" Scenario_b
      "initial ''EUR/USD''"] a b c
  have "process_line 4300 (initial ''EUR/USD'', Some Scenario_b) ''  Risk Reward : 1 to 3 ''
       = Inr (store Scenario_b
                 (replace CHR '' '' CHR ''_''
                    (lower (strip (takeWhile (\<lambda>c. c \<noteq> CHR '':'') (strip ''  Risk Reward : 1 to 3 '')))))
                 (strip (rest (strip ''  Risk Reward : 1 to 3 ''))) (initial ''EUR/USD''), Some Scenario_b)"
    by blast
  then have "process_line 4300 (initial ''EUR/USD'', Some Scenario_b) ''  Risk Reward : 1 to 3 ''
       = Inr ((initial ''EUR/USD'')\<lparr>scenario_b := [''risk_reward'' \<mapsto> ''1 to 3'']\<rparr>,
              Some Scenario_b)"
    by (simp only: k v) (simp add: initial_def)
  with a b show ?thesis by blast
qed

text \<open>
  C5. Last match wins, as far as the code has it. The verdict is the remainder of the
  last line that has \<open>VERDICT:\<close>; the setup type is the remainder of the last line that
  has \<open>SETUP TYPE:\<close> and neither \<open>VERDICT:\<close> nor \<open>CONFIDENCE:\<close>; the confidence is the value
  of the last line that has \<open>CONFIDENCE:\<close>, no \<open>VERDICT:\<close>, and digits that convert. Each
  field keeps its default when there is no such line. A later line never loses to an
  earlier one, so the first match does not win.
\<close>

theorem last_match_wins:
  "\<exists>r. parse_analysis maxd text p = Inr r
     \<and> verdict r = last_or ''UNKNOWN'' (map remainder (filter (has ''VERDICT:'') (split nl text)))
     \<and> confidence r =
         last_or 5 (map (\<lambda>raw. decimal (confidence_digits raw))
                      (filter (sets_confidence maxd) (split nl text)))
     \<and> setup_type r = last_or ''Unknown'' (map remainder (filter setup_line (split nl text)))"
  using summary_foldl [of maxd p "split nl text"]
  by (simp add: parse_analysis_foldl summary_def)

theorem last_match_wins_witness:
  "\<exists>r. parse_analysis 4300
          (''VERDICT: NO'' @ [nl] @ ''VERDICT: YES'' @ [nl] @ ''CONFIDENCE: 8'' @ [nl]
           @ ''CONFIDENCE: high'' @ [nl] @ ''SETUP TYPE: Gap'' @ [nl] @ ''SETUP TYPE: Day'')
          ''EUR/USD'' = Inr r
     \<and> verdict r = ''YES'' \<and> confidence r = 8 \<and> setup_type r = ''Day''"
proof -
  let ?text = "''VERDICT: NO'' @ [nl] @ ''VERDICT: YES'' @ [nl] @ ''CONFIDENCE: 8'' @ [nl]
           @ ''CONFIDENCE: high'' @ [nl] @ ''SETUP TYPE: Gap'' @ [nl] @ ''SETUP TYPE: Day''"
  have v: "last_or ''UNKNOWN'' (map remainder (filter (has ''VERDICT:'') (split nl ?text))) = ''YES''"
    and c: "last_or 5 (map (\<lambda>raw. decimal (confidence_digits raw))
                      (filter (sets_confidence 4300) (split nl ?text))) = 8"
    and s: "last_or ''Unknown'' (map remainder (filter setup_line (split nl ?text))) = ''Day''"
    by code_simp+
  from last_match_wins [of 4300 ?text "''EUR/USD''"]
  show ?thesis
    by (simp only: v c s)
qed

text \<open>
  C5, where the stated rule fails. The overwrite is not unconditional for the
  confidence: in the reply below the last
  line that has \<open>CONFIDENCE:\<close> has no digits, it leaves the field alone, and the final
  value 8 comes from the first matching line; that last line alone gives the default.
\<close>

theorem last_match_counterexample:
  "has ''CONFIDENCE:'' ''CONFIDENCE: high''
   \<and> parse_analysis 4300 (''CONFIDENCE: 8'' @ [nl] @ ''CONFIDENCE: high'') ''EUR/USD''
       = Inr ((initial ''EUR/USD'')\<lparr>confidence := 8\<rparr>)
   \<and> parse_analysis 4300 ''CONFIDENCE: high'' ''EUR/USD'' = Inr (initial ''EUR/USD'')"
proof -
  have a: "has ''CONFIDENCE:'' ''CONFIDENCE: high''"
    and b: "\<not> has ''VERDICT:'' ''CONFIDENCE: high''"
    and c: "filter py_isdigit (strip (rest (strip ''CONFIDENCE: high''))) = ''''"
    and a': "has ''CONFIDENCE:'' ''CONFIDENCE: 8''"
    and b': "\<not> has ''VERDICT:'' ''CONFIDENCE: 8''"
    and c': "filter py_isdigit (strip (rest (strip ''CONFIDENCE: 8''))) = ''8''"
    and d: "split nl (''CONFIDENCE: 8'' @ [nl] @ ''CONFIDENCE: high'')
              = [''CONFIDENCE: 8'', ''CONFIDENCE: high'']"
    and d': "split nl ''CONFIDENCE: high'' = [''CONFIDENCE: high'']"
    and e: "py_int 4300 ''8'' = Inr 8"
    and e': "py_int 4300 '''' = Inl ValueError"
    by code_simp+
  have "parse_analysis 4300 (''CONFIDENCE: 8'' @ [nl] @ ''CONFIDENCE: high'') ''EUR/USD''
       = Inr ((initial ''EUR/USD'')\<lparr>confidence := 8\<rparr>)"
    unfolding parse_analysis_def d
    by (simp add: process_confidence [OF b a] process_confidence [OF b' a'] c c' e e')
  moreover have "parse_analysis 4300 ''CONFIDENCE: high'' ''EUR/USD'' = Inr (initial ''EUR/USD'')"
    unfolding parse_analysis_def d'
    by (simp add: process_confidence [OF b a] c e')
  ultimately show ?thesis
    using a by blast
qed

text \<open>
  C6. The market story is the concatenation, in the order of the reply, of every story
  line followed by one space, a story line being a non-empty trimmed line that is neither
  a header field nor a section header and that is read while the story section is the
  active one. So a market story that is not empty ends with a space.
\<close>

theorem market_story_spaced:
  "\<exists>r. parse_analysis maxd text p = Inr r
     \<and> market_story r = concat (map (\<lambda>l. l @ '' '') (story_lines (split nl text)))
     \<and> (market_story r = [] \<or> last (market_story r) = CHR '' '')"
  using summary_foldl [of maxd p "split nl text"] spaced_end [of "story_lines (split nl text)"]
  by (simp add: parse_analysis_foldl summary_def)

theorem market_story_spaced_witness:
  "\<exists>r. parse_analysis 4300
          (''**MARKET STORY:**'' @ [nl] @ ''  Price swept the lows.  '' @ [nl] @ [nl]
           @ ''VERDICT: YES'' @ [nl] @ ''Buyers stepped in.'' @ [nl]
           @ ''KEY CONFLUENCES:'' @ [nl] @ ''- FVG present'')
          ''EUR/USD'' = Inr r
     \<and> market_story r = ''Price swept the lows. Buyers stepped in. ''
     \<and> last (market_story r) = CHR '' ''"
proof -
  let ?text = "''**MARKET STORY:**'' @ [nl] @ ''  Price swept the lows.  '' @ [nl] @ [nl]
           @ ''VERDICT: YES'' @ [nl] @ ''Buyers stepped in.'' @ [nl]
           @ ''KEY CONFLUENCES:'' @ [nl] @ ''- FVG present''"
  have s: "concat (map (\<lambda>l. l @ '' '') (story_lines (split nl ?text)))
             = ''Price swept the lows. Buyers stepped in. ''"
    by code_simp
  have l: "last ''Price swept the lows. Buyers stepped in. '' = CHR '' ''"
    by code_simp
  from market_story_spaced [of 4300 ?text "''EUR/USD''"]
  obtain r where "parse_analysis 4300 ?text ''EUR/USD'' = Inr r"
    and "market_story r = concat (map (\<lambda>l. l @ '' '') (story_lines (split nl ?text)))"
    by blast
  then have "parse_analysis 4300 ?text ''EUR/USD'' = Inr r
     \<and> market_story r = ''Price swept the lows. Buyers stepped in. ''
     \<and> last (market_story r) = CHR '' ''"
    by (simp only: s l)
  then show ?thesis by blast
qed

text \<open>
  C7. Whatever the reply and the pair, the key levels of the result are empty. A line
  containing \<open>CRITICAL LEVELS\<close> does activate the levels section, from any state, and a
  content line that follows it is read and changes nothing.
\<close>

theorem key_levels_empty:
  "(\<exists>r. parse_analysis maxd text p = Inr r \<and> key_levels r = Map.empty)
   \<and> run_lines maxd (parsed, cur) [''CRITICAL LEVELS:'', ''- Support: 1.2400'']
       = Inr (parsed, Some Levels)"
proof
  show "\<exists>r. parse_analysis maxd text p = Inr r \<and> key_levels r = Map.empty"
    using summary_foldl [of maxd p "split nl text"]
    by (simp add: parse_analysis_foldl summary_def)
next
  have a: "\<not> header_field ''CRITICAL LEVELS:''"
    and b: "section_header ''CRITICAL LEVELS:'' = Some Levels"
    and c: "\<not> header_field ''- Support: 1.2400''"
    and d: "section_header ''- Support: 1.2400'' = None"
    and e: "strip ''- Support: 1.2400'' = ''- Support: 1.2400''"
    by code_simp+
  show "run_lines maxd (parsed, cur) [''CRITICAL LEVELS:'', ''- Support: 1.2400'']
       = Inr (parsed, Some Levels)"
    by (simp add: process_section [OF a b] process_content [OF c d] e gather_def)
qed

theorem key_levels_empty_witness:
  "(\<exists>r. parse_analysis 4300 (''CRITICAL LEVELS:'' @ [nl] @ ''- Support: 1.2400'') ''EUR/USD''
          = Inr r \<and> key_levels r = Map.empty)
   \<and> run_lines 4300 (initial ''EUR/USD'', None)
         [''CRITICAL LEVELS:'', ''- Support: 1.2400'']
       = Inr (initial ''EUR/USD'', Some Levels)"
  by (rule key_levels_empty)

text \<open>
  C8. Error handling of \<open>analyze_chart\<close>. The function always returns a dictionary and
  raises nothing, whatever the client does with the request it is sent. When the client
  raises, the dictionary is the failure record: \<open>success\<close> false, \<open>error\<close> the description
  of the exception, and the caller's pair and timeframes. When the client returns a reply
  whose first choice has a text, the dictionary is the success record: \<open>success\<close> true,
  \<open>raw_analysis\<close> the text, \<open>parsed\<close> the result of the parser on it, and the pair and
  timeframes. A reply with no choice or with no text in its first choice also ends in a
  failure record. A failure record has neither \<open>parsed\<close> nor \<open>raw_analysis\<close>.
\<close>

theorem analyze_chart_outcome:
  "\<exists>result. analyze_chart maxd self images p timeframes user_context = Inr result
     \<and> (\<forall>d. client self (request_sent self images p timeframes user_context) = Inl d \<longrightarrow>
            result = [''success'' \<mapsto> Bool False, ''error'' \<mapsto> Str d, ''pair'' \<mapsto> Str p,
                      ''timeframes'' \<mapsto> Strs timeframes])
     \<and> (\<forall>response text others.
            client self (request_sent self images p timeframes user_context) = Inr response
            \<and> choices response = Some text # others \<longrightarrow>
            (\<exists>parsed. parse_analysis maxd text p = Inr parsed
               \<and> result = [''success'' \<mapsto> Bool True, ''raw_analysis'' \<mapsto> Str text,
                            ''parsed'' \<mapsto> Parsed parsed, ''pair'' \<mapsto> Str p,
                            ''timeframes'' \<mapsto> Strs timeframes]))
     \<and> (\<forall>response others.
            client self (request_sent self images p timeframes user_context) = Inr response
            \<and> (choices response = [] \<or> choices response = None # others) \<longrightarrow>
            (\<exists>d. result = [''success'' \<mapsto> Bool False, ''error'' \<mapsto> Str d, ''pair'' \<mapsto> Str p,
                            ''timeframes'' \<mapsto> Strs timeframes]))
     \<and> (result ''success'' = Some (Bool False) \<longrightarrow>
            result ''parsed'' = None \<and> result ''raw_analysis'' = None)"
proof -
  let ?req = "request_sent self images p timeframes user_context"
  let ?fail = "\<lambda>d. [''success'' \<mapsto> Bool False, ''error'' \<mapsto> Str d, ''pair'' \<mapsto> Str p,
                    ''timeframes'' \<mapsto> Strs timeframes]"
  let ?ok = "\<lambda>text parsed. [''success'' \<mapsto> Bool True, ''raw_analysis'' \<mapsto> Str text,
                            ''parsed'' \<mapsto> Parsed parsed, ''pair'' \<mapsto> Str p,
                            ''timeframes'' \<mapsto> Strs timeframes]"
  have nokeys: "\<And>d. ?fail d ''parsed'' = None \<and> ?fail d ''raw_analysis'' = None"
    by simp
  have oktrue: "\<And>text parsed. ?ok text parsed ''success'' = Some (Bool True)"
    by simp
  show ?thesis
  proof (cases "client self ?req")
    case (Inl d)
    then have "analyze_chart maxd self images p timeframes user_context = Inr (?fail d)"
      by (simp add: analyze_chart_eq call_raises)
    with Inl nokeys show ?thesis by auto
  next
    case (Inr response)
    show ?thesis
    proof (cases "choices response")
      case Nil
      with Inr have "analyze_chart maxd self images p timeframes user_context
                       = Inr (?fail (str_error IndexError))"
        by (simp add: analyze_chart_eq call_returns)
      with Inr Nil nokeys show ?thesis by auto
    next
      case (Cons c others)
      show ?thesis
      proof (cases c)
        case None
        with Inr Cons have "analyze_chart maxd self images p timeframes user_context
                       = Inr (?fail (str_error AttributeError))"
          by (simp add: analyze_chart_eq call_returns)
        with Inr Cons None nokeys show ?thesis by auto
      next
        case (Some reply)
        obtain parsed where pa: "parse_analysis maxd reply p = Inr parsed"
          by (auto simp: parse_analysis_foldl)
        with Inr Cons Some have "analyze_chart maxd self images p timeframes user_context
                       = Inr (?ok reply parsed)"
          by (simp add: analyze_chart_eq call_returns)
        with Inr Cons Some pa oktrue show ?thesis by auto
      qed
    qed
  qed
qed

theorem analyze_chart_outcome_witness:
  "analyze_chart 4300 (init (\<lambda>req. Inl ''Connection error.'')) [[0xFF, 0xD8]] ''EUR/USD''
       [''4H''] None
     = Inr [''success'' \<mapsto> Bool False, ''error'' \<mapsto> Str ''Connection error.'',
            ''pair'' \<mapsto> Str ''EUR/USD'', ''timeframes'' \<mapsto> Strs [''4H'']]
   \<and> analyze_chart 4300 (init (\<lambda>req. Inr \<lparr>choices = [Some ''VERDICT: YES'']\<rparr>))
         [[0xFF, 0xD8]] ''EUR/USD'' [''4H''] None
     = Inr [''success'' \<mapsto> Bool True, ''raw_analysis'' \<mapsto> Str ''VERDICT: YES'',
            ''parsed'' \<mapsto> Parsed ((initial ''EUR/USD'')\<lparr>verdict := ''YES''\<rparr>),
            ''pair'' \<mapsto> Str ''EUR/USD'', ''timeframes'' \<mapsto> Strs [''4H'']]"
proof
  let ?self = "init (\<lambda>req. Inl ''Connection error.'')"
  let ?images = "[[0xFF, 0xD8]] :: byte list list"
  have c: "client ?self (request_sent ?self ?images ''EUR/USD'' [''4H''] None)
             = Inl ''Connection error.''"
    by (simp add: init_def)
  from analyze_chart_outcome [of 4300 ?self ?images "''EUR/USD''" "[''4H'']" None]
  obtain result where "analyze_chart 4300 ?self ?images ''EUR/USD'' [''4H''] None = Inr result"
    and "\<forall>d. client ?self (request_sent ?self ?images ''EUR/USD'' [''4H''] None) = Inl d \<longrightarrow>
            result = [''success'' \<mapsto> Bool False, ''error'' \<mapsto> Str d,
                      ''pair'' \<mapsto> Str ''EUR/USD'', ''timeframes'' \<mapsto> Strs [''4H'']]"
    by blast
  with c show "analyze_chart 4300 ?self ?images ''EUR/USD'' [''4H''] None
     = Inr [''success'' \<mapsto> Bool False, ''error'' \<mapsto> Str ''Connection error.'',
            ''pair'' \<mapsto> Str ''EUR/USD'', ''timeframes'' \<mapsto> Strs [''4H'']]"
    by blast
next
  let ?self = "init (\<lambda>req. Inr \<lparr>choices = [Some ''VERDICT: YES'']\<rparr>)"
  let ?images = "[[0xFF, 0xD8]] :: byte list list"
  have c: "client ?self (request_sent ?self ?images ''EUR/USD'' [''4H''] None)
             = Inr \<lparr>choices = [Some ''VERDICT: YES'']\<rparr>
           \<and> choices \<lparr>choices = [Some ''VERDICT: YES'']\<rparr> = Some ''VERDICT: YES'' # []"
    by (simp add: init_def)
  have v: "has ''VERDICT:'' ''VERDICT: YES''"
    and d: "split nl ''VERDICT: YES'' = [''VERDICT: YES'']"
    and r: "strip (rest (strip ''VERDICT: YES'')) = ''YES''"
    by code_simp+
  have pa: "parse_analysis 4300 ''VERDICT: YES'' ''EUR/USD''
              = Inr ((initial ''EUR/USD'')\<lparr>verdict := ''YES''\<rparr>)"
    unfolding parse_analysis_def d
    by (simp add: process_verdict [OF v] r)
  from analyze_chart_outcome [of 4300 ?self ?images "''EUR/USD''" "[''4H'']" None]
  obtain result where a: "analyze_chart 4300 ?self ?images ''EUR/USD'' [''4H''] None = Inr result"
    and "\<forall>response reply others.
            client ?self (request_sent ?self ?images ''EUR/USD'' [''4H''] None) = Inr response
            \<and> choices response = Some reply # others \<longrightarrow>
            (\<exists>parsed. parse_analysis 4300 reply ''EUR/USD'' = Inr parsed
               \<and> result = [''success'' \<mapsto> Bool True, ''raw_analysis'' \<mapsto> Str reply,
                            ''parsed'' \<mapsto> Parsed parsed, ''pair'' \<mapsto> Str ''EUR/USD'',
                            ''timeframes'' \<mapsto> Strs [''4H'']])"
    by blast
  with c obtain parsed where "parse_analysis 4300 ''VERDICT: YES'' ''EUR/USD'' = Inr parsed"
    and "result = [''success'' \<mapsto> Bool True, ''raw_analysis'' \<mapsto> Str ''VERDICT: YES'',
                            ''parsed'' \<mapsto> Parsed parsed, ''pair'' \<mapsto> Str ''EUR/USD'',
                            ''timeframes'' \<mapsto> Strs [''4H'']]"
    by blast
  with pa a show "analyze_chart 4300 ?self ?images ''EUR/USD'' [''4H''] None
     = Inr [''success'' \<mapsto> Bool True, ''raw_analysis'' \<mapsto> Str ''VERDICT: YES'',
            ''parsed'' \<mapsto> Parsed ((initial ''EUR/USD'')\<lparr>verdict := ''YES''\<rparr>),
            ''pair'' \<mapsto> Str ''EUR/USD'', ''timeframes'' \<mapsto> Strs [''4H'']]"
    by simp
qed

text \<open>
  C9. Timeframe defaulting in the prompt builder. For any images and any timeframes the
  loop over the images fails nowhere and yields two parts per image: at position \<open>2 * i\<close>
  the image \<open>i\<close> itself and at position \<open>2 * i + 1\<close> the text
  \<open>[Chart <i+1>: <tf> timeframe]\<close>, where \<open>tf\<close> is \<open>timeframes[i]\<close> when \<open>i\<close> is below the
  length of the timeframes and \<open>Unknown\<close> otherwise. No caption is missing, however short
  the list of timeframes.
\<close>

theorem caption_of_every_image:
  "\<exists>ms. image_messages images timeframes = Inr ms
     \<and> length ms = 2 * length images
     \<and> (\<forall>i<length images.
           ms ! (2 * i) =
             Image_url (''data:image/jpeg;base64,'' @ encode_image_from_bytes (images ! i))
               ''high''
           \<and> ms ! (2 * i + 1) =
               Text (''[Chart '' @ str_nat (i + 1) @ '': ''
                     @ (if i < length timeframes then timeframes ! i else ''Unknown'')
                     @ '' timeframe]''))"
proof -
  let ?ms = "concat (map (\<lambda>i. [image_part (images ! i), Text (caption timeframes i)])
                    [0 ..< length images])"
  have "image_messages images timeframes = Inr ?ms"
    by (rule image_messages_eq)
  moreover have "length ?ms = 2 * length images"
    by (rule pairs_length)
  moreover have "\<forall>i<length images.
           ?ms ! (2 * i) =
             Image_url (''data:image/jpeg;base64,'' @ encode_image_from_bytes (images ! i))
               ''high''
           \<and> ?ms ! (2 * i + 1) =
               Text (''[Chart '' @ str_nat (i + 1) @ '': ''
                     @ (if i < length timeframes then timeframes ! i else ''Unknown'')
                     @ '' timeframe]'')"
    using pairs_nth [of _ "length images" "\<lambda>i. image_part (images ! i)"
        "\<lambda>i. Text (caption timeframes i)"]
    by (simp add: image_part_def caption_def timeframe_label_def)
  ultimately show ?thesis by blast
qed

theorem caption_of_every_image_witness:
  "\<exists>ms. image_messages [[0x4D], [0x4D, 0x61], [0x4D, 0x61, 0x6E]] [''4H''] = Inr ms
     \<and> length ms = 6
     \<and> ms ! 0 = Image_url ''data:image/jpeg;base64,TQ=='' ''high''
     \<and> ms ! 1 = Text ''[Chart 1: 4H timeframe]''
     \<and> ms ! 3 = Text ''[Chart 2: Unknown timeframe]''
     \<and> ms ! 4 = Image_url ''data:image/jpeg;base64,TWFu'' ''high''
     \<and> ms ! 5 = Text ''[Chart 3: Unknown timeframe]''"
proof -
  let ?images = "[[0x4D], [0x4D, 0x61], [0x4D, 0x61, 0x6E]] :: byte list list"
  from caption_of_every_image [of ?images "[''4H'']"]
  obtain ms where m: "image_messages ?images [''4H''] = Inr ms"
    and l: "length ms = 2 * length ?images"
    and c: "\<forall>i<length ?images.
           ms ! (2 * i) =
             Image_url (''data:image/jpeg;base64,'' @ encode_image_from_bytes (?images ! i))
               ''high''
           \<and> ms ! (2 * i + 1) =
               Text (''[Chart '' @ str_nat (i + 1) @ '': ''
                     @ (if i < length [''4H''] then [''4H''] ! i else ''Unknown'')
                     @ '' timeframe]'')"
    by blast
  have e: "encode_image_from_bytes [0x4D] = ''TQ==''"
    "encode_image_from_bytes [0x4D, 0x61, 0x6E] = ''TWFu''"
    "str_nat (Suc 0) = ''1''" "str_nat (Suc (Suc 0)) = ''2''" "str_nat 3 = ''3''"
    by code_simp+
  from c [rule_format, of 0] c [rule_format, of 1] c [rule_format, of 2] l
  have "length ms = 6
     \<and> ms ! 0 = Image_url ''data:image/jpeg;base64,TQ=='' ''high''
     \<and> ms ! 1 = Text ''[Chart 1: 4H timeframe]''
     \<and> ms ! 3 = Text ''[Chart 2: Unknown timeframe]''
     \<and> ms ! 4 = Image_url ''data:image/jpeg;base64,TWFu'' ''high''
     \<and> ms ! 5 = Text ''[Chart 3: Unknown timeframe]''"
    by (simp add: e)
  with m show ?thesis by blast
qed

text \<open>
  C10. Key normalisation keeps a leading dash. A content line of a scenario section whose
  trimmed text begins with a dash and a space, and has a colon after them, is stored
  under a key that begins with \<open>-_\<close> when a character other than white space stands
  between that beginning and the first colon; the key is then \<open>-_\<close> followed by the
  normalised name. When nothing but white space stands there, the key is the dash alone.
  So \<open>- Entry: 1.2500\<close> is stored under \<open>-_entry\<close>, and the system prompt asks the Model
  for lines of exactly this form.
\<close>

theorem dash_key:
  assumes "strip raw = ''- '' @ body" and "CHR '':'' \<in> set body"
    and "\<not> header_field raw" and "section_header raw = None"
    and "sec \<in> {Scenario_a, Scenario_b, Scenario_c}"
  shows "process_line maxd (parsed, Some sec) raw =
           Inr (store sec
                  (if list_ex (\<lambda>c. \<not> py_isspace c) (takeWhile (\<lambda>c. c \<noteq> CHR '':'') body)
                   then ''-_'' @ replace CHR '' '' CHR ''_''
                          (lower (rev (dropWhile py_isspace
                             (rev (takeWhile (\<lambda>c. c \<noteq> CHR '':'') body)))))
                   else ''-'')
                  (strip (rest body)) parsed, Some sec)
         \<and> process_line maxd (parsed, Some Scenario_a) ''- Entry: 1.2500''
             = Inr (parsed\<lparr>scenario_a := (scenario_a parsed)(''-_entry'' \<mapsto> ''1.2500'')\<rparr>,
                    Some Scenario_a)
         \<and> ''- Entry: [Exact price level]'' \<in> set (split nl build_system_prompt)"
proof (intro conjI)
  have "gather sec (CHR ''-'' # CHR '' '' # body) parsed
          = store sec (key_of (CHR ''-'' # CHR '' '' # body)) (strip (rest body)) parsed"
    using assms(2,5) by (auto simp add: gather_def rest_dash)
  then show "process_line maxd (parsed, Some sec) raw =
           Inr (store sec
                  (if list_ex (\<lambda>c. \<not> py_isspace c) (takeWhile (\<lambda>c. c \<noteq> CHR '':'') body)
                   then ''-_'' @ replace CHR '' '' CHR ''_''
                          (lower (rev (dropWhile py_isspace
                             (rev (takeWhile (\<lambda>c. c \<noteq> CHR '':'') body)))))
                   else ''-'')
                  (strip (rest body)) parsed, Some sec)"
    using assms(1)
    by (simp add: process_content [OF assms(3,4)] key_of_dash)
next
  have h: "\<not> header_field ''- Entry: 1.2500''"
    and s: "section_header ''- Entry: 1.2500'' = None"
    and v: "strip ''- Entry: 1.2500'' = ''- Entry: 1.2500''"
      "key_of ''- Entry: 1.2500'' = ''-_entry''"
      "strip (rest ''- Entry: 1.2500'') = ''1.2500''"
    by code_simp+
  show "process_line maxd (parsed, Some Scenario_a) ''- Entry: 1.2500''
             = Inr (parsed\<lparr>scenario_a := (scenario_a parsed)(''-_entry'' \<mapsto> ''1.2500'')\<rparr>,
                    Some Scenario_a)"
    by (simp add: process_content [OF h s] gather_def v)
next
  show "''- Entry: [Exact price level]'' \<in> set (split nl build_system_prompt)"
    unfolding build_system_prompt_def
    by (subst split_join) (simp_all add: nl_def)
qed

theorem dash_key_witness:
  "strip '' - Stop Loss : 1.2450'' = ''- '' @ ''Stop Loss : 1.2450''
   \<and> CHR '':'' \<in> set ''Stop Loss : 1.2450''
   \<and> \<not> header_field '' - Stop Loss : 1.2450''
   \<and> section_header '' - Stop Loss : 1.2450'' = None
   \<and> process_line 4300 (initial ''EUR/USD'', Some Scenario_c) '' - Stop Loss : 1.2450''
       = Inr ((initial ''EUR/USD'')\<lparr>scenario_c := [''-_stop_loss'' \<mapsto> ''1.2450'']\<rparr>,
              Some Scenario_c)"
proof -
  have a: "strip '' - Stop Loss : 1.2450'' = ''- '' @ ''Stop Loss : 1.2450''"
    and b: "CHR '':'' \<in> set ''Stop Loss : 1.2450''"
    and c: "\<not> header_field '' - Stop Loss : 1.2450''"
    and d: "section_header '' - Stop Loss : 1.2450'' = None"
    and k: "(if list_ex (\<lambda>c. \<not> py_isspace c) (takeWhile (\<lambda>c. c \<noteq> CHR '':'') ''Stop Loss : 1.2450'')
             then ''-_'' @ replace CHR '' '' CHR ''_''
                    (lower (rev (dropWhile py_isspace
                       (rev (takeWhile (\<lambda>c. c \<noteq> CHR '':'') ''Stop Loss : 1.2450'')))))
             else ''-'') = ''-_stop_loss''"
    and v: "strip (rest ''Stop Loss : 1.2450'') = ''1.2450''"
    by code_simp+
  have e: "Scenario_c \<in> {Scenario_a, Scenario_b, Scenario_c}" by simp
  from dash_key [OF a b c d e, of 4300 "initial ''EUR/USD''"]
  have "process_line 4300 (initial ''EUR/USD'', Some Scenario_c) '' - Stop Loss : 1.2450''
       = Inr (store Scenario_c ''-_stop_loss'' ''1.2450'' (initial ''EUR/USD''), Some Scenario_c)"
    by (simp only: k v)
  then have "process_line 4300 (initial ''EUR/USD'', Some Scenario_c) '' - Stop Loss : 1.2450''
       = Inr ((initial ''EUR/USD'')\<lparr>scenario_c := [''-_stop_loss'' \<mapsto> ''1.2450'']\<rparr>,
              Some Scenario_c)"
    by (simp add: initial_def)
  with a b c d show ?thesis by blast
qed

text \<open>
  C10, where the stated rule fails. The line \<open>- : 1.2500\<close> begins with a dash and a
  space and is stored by scenario A, under the key \<open>-\<close>, which has no \<open>-_\<close> in front.
\<close>

theorem dash_key_counterexample:
  "startswith ''- : 1.2500'' ''- ''
   \<and> parse_analysis 4300 (''SCENARIO A'' @ [nl] @ ''- : 1.2500'') ''EUR/USD''
       = Inr ((initial ''EUR/USD'')\<lparr>scenario_a := [''-'' \<mapsto> ''1.2500'']\<rparr>)
   \<and> \<not> prefix ''-_'' ''-''"
proof -
  have d: "split nl (''SCENARIO A'' @ [nl] @ ''- : 1.2500'') = [''SCENARIO A'', ''- : 1.2500'']"
    and h1: "\<not> header_field ''SCENARIO A''"
    and s1: "section_header ''SCENARIO A'' = Some Scenario_a"
    and h2: "\<not> header_field ''- : 1.2500''"
    and s2: "section_header ''- : 1.2500'' = None"
    and v: "strip ''- : 1.2500'' = ''- : 1.2500''"
      "key_of ''- : 1.2500'' = ''-''"
      "strip (rest ''- : 1.2500'') = ''1.2500''"
    and a: "startswith ''- : 1.2500'' ''- ''"
    and n: "\<not> prefix ''-_'' ''-''"
    by code_simp+
  have "parse_analysis 4300 (''SCENARIO A'' @ [nl] @ ''- : 1.2500'') ''EUR/USD''
       = Inr ((initial ''EUR/USD'')\<lparr>scenario_a := [''-'' \<mapsto> ''1.2500'']\<rparr>)"
    unfolding parse_analysis_def d
    by (simp add: process_section [OF h1 s1] process_content [OF h2 s2] gather_def v initial_def)
  with a n show ?thesis by blast
qed

end
